theory Spec2Isabelle
  imports Main "HOL-Library.Word" "HOL-Library.Sublist"
begin

section \<open>Errors\<close>

text \<open>
  Go \<^verbatim>\<open>error\<close> values that occur in the program. \<open>ErrRecordNotFound\<close> is the sentinel
  \<^verbatim>\<open>gorm.ErrRecordNotFound\<close> the handlers compare against; \<open>ErrorsNew m\<close> is
  \<^verbatim>\<open>errors.New(m)\<close> as the validators build it; \<open>BcryptError\<close> is an error returned by
  \<^verbatim>\<open>bcrypt.GenerateFromPassword\<close>; \<open>BindError\<close> is an error of \<^verbatim>\<open>c.ShouldBindJSON\<close>;
  \<open>DBError\<close> is any other fault the relational engine reports (connectivity, constraint
  violation, unknown column).
\<close>

datatype error =
    ErrRecordNotFound
  | ErrorsNew string
  | BcryptError string
  | BindError string
  | DBError string

fun Error_msg :: "error \<Rightarrow> string" where
  "Error_msg ErrRecordNotFound = ''record not found''"
| "Error_msg (ErrorsNew m) = m"
| "Error_msg (BcryptError m) = m"
| "Error_msg (BindError m) = m"
| "Error_msg (DBError m) = m"

section \<open>meta: the base resource\<close>

text \<open>
  \<^verbatim>\<open>time.Time\<close> is a count of clock ticks, the zero time being 0. Go's \<^verbatim>\<open>int\<close> is taken at
  64 bits (\<open>+\<close> wraps); \<^verbatim>\<open>uint\<close> identifiers are natural numbers below \<open>2 ^ 64\<close>, no
  arithmetic is done on them. A \<^verbatim>\<open>map[string]string\<close> is \<open>None\<close> when nil.
\<close>

type_synonym time = nat

record ResourceStatus =
  Phase :: string
  Message :: string
  Reason :: string
  LastTransitionTime :: time

text \<open>
  \<^verbatim>\<open>BaseResource\<close> embeds \<^verbatim>\<open>TypeMeta\<close> and \<^verbatim>\<open>ObjectMeta\<close>; Go promotes their fields, so the
  record lists them flat. A struct that embeds \<^verbatim>\<open>BaseResource\<close> is a record extension, and
  the methods of \<^verbatim>\<open>*BaseResource\<close> work on every extension, touching the base fields only.
\<close>

record BaseResource =
  Kind :: string
  APIVersion :: string
  ID :: nat
  UID :: string
  ResourceVersion :: "64 word"
  CreatedAt :: time
  UpdatedAt :: time
  Labels :: "(string \<times> string) list option"
  Annotations :: "(string \<times> string) list option"
  Status :: ResourceStatus

definition SetStatus ::
  "time \<Rightarrow> string \<Rightarrow> string \<Rightarrow> string \<Rightarrow> 'a BaseResource_scheme \<Rightarrow> 'a BaseResource_scheme" where
  "SetStatus now phase message reason b =
     b\<lparr>Status := \<lparr>Phase = phase, Message = message, Reason = reason,
                   LastTransitionTime = now\<rparr>\<rparr>"

definition Validate :: "'a BaseResource_scheme \<Rightarrow> error option" where
  "Validate b =
     (if Kind b = [] then Some (ErrorsNew ''kind is required'')
      else if APIVersion b = [] then Some (ErrorsNew ''apiVersion is required'')
      else None)"

text \<open>
  The hooks mutate the receiver and return an error; the model returns the mutated
  receiver together with the error. \<open>uuid\<close> is the string \<^verbatim>\<open>uuid.New().String()\<close> yields,
  \<open>now\<close> the value of \<^verbatim>\<open>time.Now()\<close>.
\<close>

definition BeforeCreate ::
  "string \<Rightarrow> time \<Rightarrow> 'a BaseResource_scheme \<Rightarrow> 'a BaseResource_scheme \<times> error option" where
  "BeforeCreate uuid now b =
     (let b1 = (if UID b = [] then b\<lparr>UID := uuid\<rparr> else b);
          b2 = (if ResourceVersion b1 = 0 then b1\<lparr>ResourceVersion := 1\<rparr> else b1);
          b3 = (if Phase (Status b2) = []
                then SetStatus now ''Pending'' ''Resource is being created'' [] b2
                else b2)
      in (b3, Validate b3))"

definition BeforeUpdate :: "'a BaseResource_scheme \<Rightarrow> 'a BaseResource_scheme \<times> error option" where
  "BeforeUpdate b =
     (let b1 = b\<lparr>ResourceVersion := ResourceVersion b + 1\<rparr>
      in (b1, Validate b1))"

definition BeforeDelete :: "'a BaseResource_scheme \<Rightarrow> 'a BaseResource_scheme \<times> error option" where
  "BeforeDelete b = (b, None)"

section \<open>apiv1: the user resource\<close>

record User = BaseResource +
  Username :: string
  Email :: string
  Password :: string
  FullName :: string
  IsActive :: bool

text \<open>
  The regular expression of \<^verbatim>\<open>User.Validate\<close>,
  \<^verbatim>\<open>^[a-zA-Z0-9._%+-]+@[a-zA-Z0-9.-]+\.[a-zA-Z]{2,}$\<close>, as a matcher. No character class
  contains \<^verbatim>\<open>@\<close>, so the text splits at its first \<^verbatim>\<open>@\<close> and the rest must not hold another;
  the last class holds letters only, so the literal dot is the last dot of the text.
\<close>

definition is_letter :: "char \<Rightarrow> bool" where
  "is_letter c =
     (let n = (of_char c :: nat) in (97 \<le> n \<and> n \<le> 122) \<or> (65 \<le> n \<and> n \<le> 90))"

definition is_digit :: "char \<Rightarrow> bool" where
  "is_digit c = (let n = (of_char c :: nat) in 48 \<le> n \<and> n \<le> 57)"

definition is_local_char :: "char \<Rightarrow> bool" where
  "is_local_char c = (is_letter c \<or> is_digit c \<or> c \<in> set ''._%+-'')"

definition is_domain_char :: "char \<Rightarrow> bool" where
  "is_domain_char c = (is_letter c \<or> is_digit c \<or> c \<in> set ''.-'')"

definition emailRegex_MatchString :: "string \<Rightarrow> bool" where
  "emailRegex_MatchString s =
     (let local = takeWhile (\<lambda>c. c \<noteq> CHR ''@'') s;
          rest = drop (Suc (length local)) s;
          tld = rev (takeWhile (\<lambda>c. c \<noteq> CHR ''.'') (rev rest));
          dom = take (length rest - Suc (length tld)) rest
      in length local < length s \<and> local \<noteq> [] \<and> list_all is_local_char local
         \<and> length tld < length rest \<and> 2 \<le> length tld \<and> list_all is_letter tld
         \<and> dom \<noteq> [] \<and> list_all is_domain_char dom)"

definition isHashedPassword :: "string \<Rightarrow> bool" where
  "isHashedPassword password = (prefix ''$2a$'' password \<or> prefix ''$2b$'' password)"

definition User_Validate :: "User \<Rightarrow> error option" where
  "User_Validate u =
     (case Validate u of Some err \<Rightarrow> Some err
      | None \<Rightarrow>
        if Username u = [] then Some (ErrorsNew ''username is required'')
        else if length (Username u) < 3
          then Some (ErrorsNew ''username must be at least 3 characters long'')
        else if Email u = [] then Some (ErrorsNew ''email is required'')
        else if \<not> emailRegex_MatchString (Email u) then Some (ErrorsNew ''invalid email format'')
        else if Password u = [] then Some (ErrorsNew ''password is required'')
        else None)"

text \<open>
  \<^verbatim>\<open>bcrypt.GenerateFromPassword\<close> belongs to an external package: the hooks take it as the
  parameter \<open>bcrypt\<close>, which returns the hash or an error.
\<close>

definition User_BeforeCreate ::
  "(string \<Rightarrow> error + string) \<Rightarrow> string \<Rightarrow> time \<Rightarrow> User \<Rightarrow> User \<times> error option" where
  "User_BeforeCreate bcrypt uuid now u =
     (let u1 = u\<lparr>Kind := ''User'', APIVersion := ''v1''\<rparr>;
          u2 = SetStatus now ''Active'' ''User created successfully'' ''Created'' u1
      in if \<not> prefix ''$2a$'' (Password u2)
         then (case bcrypt (Password u2) of
                 Inl err \<Rightarrow> (u2, Some err)
               | Inr hashedPassword \<Rightarrow> BeforeCreate uuid now (u2\<lparr>Password := hashedPassword\<rparr>))
         else BeforeCreate uuid now u2)"

definition User_BeforeUpdate ::
  "(string \<Rightarrow> error + string) \<Rightarrow> time \<Rightarrow> User \<Rightarrow> User \<times> error option" where
  "User_BeforeUpdate bcrypt now u =
     (let u1 = u\<lparr>Kind := ''User'', APIVersion := ''v1''\<rparr>;
          u2 = SetStatus now ''Active'' ''User updated successfully'' ''Updated'' u1
      in if \<not> prefix ''$2a$'' (Password u2)
         then (case bcrypt (Password u2) of
                 Inl err \<Rightarrow> (u2, Some err)
               | Inr hashedPassword \<Rightarrow> BeforeUpdate (u2\<lparr>Password := hashedPassword\<rparr>))
         else BeforeUpdate u2)"

definition User_BeforeDelete :: "time \<Rightarrow> User \<Rightarrow> User \<times> error option" where
  "User_BeforeDelete now u =
     BeforeDelete (SetStatus now ''Deleted'' ''User deleted successfully'' ''Deleted'' u)"

section \<open>Collaborators: number parsing\<close>

text \<open>
  \<^verbatim>\<open>strconv.ParseUint(s, 10, bitSize)\<close> and \<^verbatim>\<open>strconv.Atoi(s)\<close> of the Go standard library,
  at 64-bit \<^verbatim>\<open>int\<close>. \<^verbatim>\<open>ParseUint\<close> reads digits only (no sign), stops with a syntax error at
  the first other byte and with a range error as soon as the value leaves the bit size; on
  a range error it returns the largest value. \<^verbatim>\<open>Atoi\<close> takes an optional sign, and clips a
  value out of range to the nearest bound; the handlers ignore its error and keep the value.
\<close>

datatype num_error = ErrSyntax | ErrRange

fun ParseUint_loop :: "nat \<Rightarrow> nat \<Rightarrow> string \<Rightarrow> nat \<times> num_error option" where
  "ParseUint_loop maxVal n [] = (n, None)"
| "ParseUint_loop maxVal n (c # cs) =
     (if \<not> is_digit c then (0, Some ErrSyntax)
      else if (2 ^ 64 - 1) div 10 + 1 \<le> n then (maxVal, Some ErrRange)
      else if maxVal < n * 10 + (of_char c - 48) then (maxVal, Some ErrRange)
      else ParseUint_loop maxVal (n * 10 + (of_char c - 48)) cs)"

definition ParseUint :: "string \<Rightarrow> nat \<Rightarrow> nat \<times> num_error option" where
  "ParseUint s bitSize =
     (if s = [] then (0, Some ErrSyntax) else ParseUint_loop (2 ^ bitSize - 1) 0 s)"

definition ParseInt64 :: "string \<Rightarrow> int \<times> num_error option" where
  "ParseInt64 s =
     (if s = [] then (0, Some ErrSyntax)
      else let neg = (hd s = CHR ''-'');
               s1 = (if hd s = CHR ''+'' \<or> hd s = CHR ''-'' then tl s else s)
           in case ParseUint s1 64 of
                (un, Some ErrSyntax) \<Rightarrow> (0, Some ErrSyntax)
              | (un, _) \<Rightarrow>
                  if \<not> neg \<and> 2 ^ 63 \<le> un then (2 ^ 63 - 1, Some ErrRange)
                  else if neg \<and> 2 ^ 63 < un then (- (2 ^ 63), Some ErrRange)
                  else (if neg then - int un else int un, None))"

type_synonym go_int = "64 word"

definition Atoi :: "string \<Rightarrow> go_int \<times> num_error option" where
  "Atoi s = (case ParseInt64 s of (i, err) \<Rightarrow> (word_of_int i, err))"

section \<open>Collaborators: the store\<close>

text \<open>
  The relational store behind \<^verbatim>\<open>*gorm.DB\<close>: one table per resource type, its rows in
  the order the engine lists them (by primary key, which is the order of insertion when
  the engine assigns the keys), and the next identifier the engine hands out. What the store needs to
  know of a resource type \<^verbatim>\<open>T\<close> (the schema it derives from the struct, and the hook
  methods it probes for) is a record of functions:
  \<^item> \<open>zero\<close> is the zero value \<^verbatim>\<open>var resource T\<close>;
  \<^item> \<open>primaryKey\<close> and \<open>setPrimaryKey\<close> read and write the \<^verbatim>\<open>gorm:"primaryKey"\<close> field;
  \<^item> \<open>updateFields r row\<close> is the row after \<^verbatim>\<open>Updates(r)\<close> with a struct: every non-zero
    field of \<open>r\<close> but the key is written, a zero field leaves the column as it is;
  \<^item> \<open>column name\<close> reads a text column under its lower-case name, \<open>None\<close> for any
    other name: filters on columns of other types and other spellings of a name are
    outside the model;
  \<^item> \<open>hookBeforeCreate\<close>, \<open>hookBeforeUpdate\<close>, \<open>hookBeforeDelete\<close> are the methods
    \<^verbatim>\<open>BeforeCreate\<close>, \<^verbatim>\<open>BeforeUpdate\<close>, \<^verbatim>\<open>BeforeDelete\<close> of \<^verbatim>\<open>*T\<close>, which the store calls on
    the value it is handed before it writes, giving up without a write when one fails;
  \<^item> \<open>validator\<close> is the method \<^verbatim>\<open>Validate\<close> when \<^verbatim>\<open>*T\<close> implements \<^verbatim>\<open>Validator\<close>.
  Every call takes \<open>fault\<close>, the error the engine itself reports for the statement
  (\<open>None\<close> when it runs). Time stamps, column defaults and uniqueness constraints kept by
  the engine are not modelled apart from \<open>fault\<close>.
\<close>

record env =
  bcrypt :: "string \<Rightarrow> error + string"
  uuid_New :: string
  time_Now :: time

record 'a resource_ops =
  zero :: 'a
  primaryKey :: "'a \<Rightarrow> nat"
  setPrimaryKey :: "nat \<Rightarrow> 'a \<Rightarrow> 'a"
  updateFields :: "'a \<Rightarrow> 'a \<Rightarrow> 'a"
  column :: "string \<Rightarrow> ('a \<Rightarrow> string) option"
  hookBeforeCreate :: "env \<Rightarrow> 'a \<Rightarrow> 'a \<times> error option"
  hookBeforeUpdate :: "env \<Rightarrow> 'a \<Rightarrow> 'a \<times> error option"
  hookBeforeDelete :: "env \<Rightarrow> 'a \<Rightarrow> 'a \<times> error option"
  validator :: "('a \<Rightarrow> error option) option"

record 'a DB =
  rows :: "'a list"
  next_id :: nat

record gorm_result =
  Error :: "error option"
  RowsAffected :: int

definition has_id :: "'a resource_ops \<Rightarrow> nat \<Rightarrow> 'a \<Rightarrow> bool" where
  "has_id ops i row = (primaryKey ops row = i)"

text \<open>
  \<^verbatim>\<open>db.Create(r)\<close>: hook, then insert. A zero key is assigned by the engine and the row
  comes last; a row with a key of its own takes its place in key order.
\<close>

definition gorm_Create ::
  "'a resource_ops \<Rightarrow> env \<Rightarrow> error option \<Rightarrow> 'a \<Rightarrow> 'a DB \<Rightarrow> 'a \<times> error option \<times> 'a DB" where
  "gorm_Create ops e fault r db =
     (case hookBeforeCreate ops e r of
        (r1, Some err) \<Rightarrow> (r1, Some err, db)
      | (r1, None) \<Rightarrow>
         (case fault of
            Some err \<Rightarrow> (r1, Some err, db)
          | None \<Rightarrow>
             if primaryKey ops r1 = 0
             then (let r2 = setPrimaryKey ops (next_id db) r1
                   in (r2, None, db\<lparr>rows := rows db @ [r2], next_id := Suc (next_id db)\<rparr>))
             else if list_ex (has_id ops (primaryKey ops r1)) (rows db)
             then (r1, Some (DBError ''UNIQUE constraint failed''), db)
             else (r1, None, db\<lparr>rows := insort_key (primaryKey ops) r1 (rows db),
                                 next_id := max (next_id db) (Suc (primaryKey ops r1))\<rparr>)))"

text \<open>\<^verbatim>\<open>db.First(&resource, id)\<close>: the row with that key, or \<^verbatim>\<open>ErrRecordNotFound\<close>.\<close>

definition gorm_First :: "'a resource_ops \<Rightarrow> error option \<Rightarrow> nat \<Rightarrow> 'a DB \<Rightarrow> error + 'a" where
  "gorm_First ops fault i db =
     (case fault of
        Some err \<Rightarrow> Inl err
      | None \<Rightarrow> (case find (has_id ops i) (rows db) of
                   None \<Rightarrow> Inl ErrRecordNotFound
                 | Some row \<Rightarrow> Inr row))"

text \<open>
  \<^verbatim>\<open>Where(filter)\<close> with a map: every entry is an exact match on the named column; a name
  that is no column is an error of the statement.
\<close>

fun where_map :: "'a resource_ops \<Rightarrow> (string \<times> string) list \<Rightarrow> error + ('a \<Rightarrow> bool)" where
  "where_map ops [] = Inr (\<lambda>row. True)"
| "where_map ops ((k, v) # kvs) =
     (case column ops k of
        None \<Rightarrow> Inl (DBError (''no such column: '' @ k))
      | Some col \<Rightarrow>
         (case where_map ops kvs of
            Inl err \<Rightarrow> Inl err
          | Inr p \<Rightarrow> Inr (\<lambda>row. col row = v \<and> p row)))"

text \<open>The query \<^verbatim>\<open>db.Model(&obj)\<close>, with \<^verbatim>\<open>Where(filter)\<close> when the filter is not nil.\<close>

definition gorm_query ::
  "'a resource_ops \<Rightarrow> (string \<times> string) list option \<Rightarrow> error + ('a \<Rightarrow> bool)" where
  "gorm_query ops filter_map =
     (case filter_map of None \<Rightarrow> Inr (\<lambda>row. True) | Some m \<Rightarrow> where_map ops m)"

definition gorm_Count ::
  "error option \<Rightarrow> error + ('a \<Rightarrow> bool) \<Rightarrow> 'a DB \<Rightarrow> error + int" where
  "gorm_Count fault query db =
     (case fault of
        Some err \<Rightarrow> Inl err
      | None \<Rightarrow> (case query of
                   Inl err \<Rightarrow> Inl err
                 | Inr p \<Rightarrow> Inr (int (length (filter p (rows db))))))"

text \<open>
  \<^verbatim>\<open>query.Offset(offset).Limit(limit).Find(&resources)\<close>: an offset that is not positive and
  a negative limit are left out of the statement. A limit of 0 is taken as a limit of no
  rows; releases of the library differ on it, and the statements on pagination keep to
  limits of at least 1.
\<close>

definition gorm_Find ::
  "error option \<Rightarrow> error + ('a \<Rightarrow> bool) \<Rightarrow> int \<Rightarrow> int \<Rightarrow> 'a DB \<Rightarrow> error + 'a list" where
  "gorm_Find fault query offset limit db =
     (case fault of
        Some err \<Rightarrow> Inl err
      | None \<Rightarrow> (case query of
                   Inl err \<Rightarrow> Inl err
                 | Inr p \<Rightarrow>
                    (let matching = filter p (rows db);
                         skipped = (if 0 < offset then drop (nat offset) matching else matching)
                     in Inr (if 0 \<le> limit then take (nat limit) skipped else skipped))))"

text \<open>
  \<^verbatim>\<open>db.Model(r).Where("id = ?", id).Updates(r)\<close>: hook on \<open>r\<close>, then the non-zero fields of
  \<open>r\<close> are written to the rows with key \<open>id\<close>; a non-zero key of \<open>r\<close> itself is a
  further condition on the rows.
\<close>

definition gorm_Updates ::
  "'a resource_ops \<Rightarrow> env \<Rightarrow> error option \<Rightarrow> nat \<Rightarrow> 'a \<Rightarrow> 'a DB \<Rightarrow> 'a \<times> gorm_result \<times> 'a DB" where
  "gorm_Updates ops e fault i r db =
     (case hookBeforeUpdate ops e r of
        (r1, Some err) \<Rightarrow> (r1, \<lparr>Error = Some err, RowsAffected = 0\<rparr>, db)
      | (r1, None) \<Rightarrow>
         (case fault of
            Some err \<Rightarrow> (r1, \<lparr>Error = Some err, RowsAffected = 0\<rparr>, db)
          | None \<Rightarrow>
             (let hit = (\<lambda>row. has_id ops i row
                            \<and> (primaryKey ops r1 = 0 \<or> has_id ops (primaryKey ops r1) row))
              in (r1,
                  \<lparr>Error = None, RowsAffected = int (length (filter hit (rows db)))\<rparr>,
                  db\<lparr>rows := map (\<lambda>row. if hit row then updateFields ops r1 row else row)
                                 (rows db)\<rparr>))))"

text \<open>\<^verbatim>\<open>db.Delete(&resource, id)\<close> on a zero \<open>resource\<close>: hook, then the rows with key \<open>id\<close> go.\<close>

definition gorm_Delete ::
  "'a resource_ops \<Rightarrow> env \<Rightarrow> error option \<Rightarrow> nat \<Rightarrow> 'a DB \<Rightarrow> gorm_result \<times> 'a DB" where
  "gorm_Delete ops e fault i db =
     (case hookBeforeDelete ops e (zero ops) of
        (r1, Some err) \<Rightarrow> (\<lparr>Error = Some err, RowsAffected = 0\<rparr>, db)
      | (r1, None) \<Rightarrow>
         (case fault of
            Some err \<Rightarrow> (\<lparr>Error = Some err, RowsAffected = 0\<rparr>, db)
          | None \<Rightarrow>
             (\<lparr>Error = None, RowsAffected = int (length (filter (has_id ops i) (rows db)))\<rparr>,
              db\<lparr>rows := filter (\<lambda>row. \<not> has_id ops i row) (rows db)\<rparr>)))"

text \<open>
  \<^verbatim>\<open>db.Save(&obj)\<close>: with a zero key it is \<^verbatim>\<open>Create\<close>; otherwise the update hook runs and
  all fields of \<open>obj\<close> replace the row of that key, or are inserted when there is none.
\<close>

definition gorm_Save ::
  "'a resource_ops \<Rightarrow> env \<Rightarrow> error option \<Rightarrow> 'a \<Rightarrow> 'a DB \<Rightarrow> 'a \<times> error option \<times> 'a DB" where
  "gorm_Save ops e fault r db =
     (if primaryKey ops r = 0 then gorm_Create ops e fault r db
      else case hookBeforeUpdate ops e r of
             (r1, Some err) \<Rightarrow> (r1, Some err, db)
           | (r1, None) \<Rightarrow>
              (case fault of
                 Some err \<Rightarrow> (r1, Some err, db)
               | None \<Rightarrow>
                  if list_ex (has_id ops (primaryKey ops r1)) (rows db)
                  then (r1, None,
                        db\<lparr>rows := map (\<lambda>row. if has_id ops (primaryKey ops r1) row then r1
                                              else row) (rows db)\<rparr>)
                  else (r1, None,
                        db\<lparr>rows := insort_key (primaryKey ops) r1 (rows db),
                           next_id := max (next_id db) (Suc (primaryKey ops r1))\<rparr>)))"

text \<open>\<^verbatim>\<open>db.Transaction(fc)\<close>: the writes of \<open>fc\<close> are kept when it returns no error.\<close>

definition gorm_Transaction ::
  "('a DB \<Rightarrow> 'r \<times> error option \<times> 'a DB) \<Rightarrow> 'a DB \<Rightarrow> 'r \<times> error option \<times> 'a DB" where
  "gorm_Transaction fc db =
     (case fc db of (x, err, db1) \<Rightarrow> (x, err, if err = None then db1 else db))"

section \<open>internal: the data-access object\<close>

text \<open>
  \<^verbatim>\<open>DAO[T]\<close> over the store. A mutated \<^verbatim>\<open>*T\<close> argument is returned with the error and the
  store; a nil slice and an empty one are both \<open>[]\<close>.
\<close>

definition DAO_Create ::
  "'a resource_ops \<Rightarrow> env \<Rightarrow> error option \<Rightarrow> 'a \<Rightarrow> 'a DB \<Rightarrow> 'a \<times> error option \<times> 'a DB" where
  "DAO_Create ops e fault resource db = gorm_Create ops e fault resource db"

definition DAO_Get :: "'a resource_ops \<Rightarrow> error option \<Rightarrow> nat \<Rightarrow> 'a DB \<Rightarrow> error + 'a" where
  "DAO_Get ops fault i db =
     (case gorm_First ops fault i db of Inl err \<Rightarrow> Inl err | Inr resource \<Rightarrow> Inr resource)"

definition DAO_List ::
  "'a resource_ops \<Rightarrow> error option \<Rightarrow> error option \<Rightarrow> go_int \<Rightarrow> go_int \<Rightarrow>
   (string \<times> string) list option \<Rightarrow> 'a DB \<Rightarrow> 'a list \<times> int \<times> error option" where
  "DAO_List ops fault_count fault_find page pageSize filter_map db =
     (let query = gorm_query ops filter_map
      in case gorm_Count fault_count query db of
           Inl err \<Rightarrow> ([], 0, Some err)
         | Inr total_n \<Rightarrow>
            (let offset = (page - 1) * pageSize
             in case gorm_Find fault_find query (sint offset) (sint pageSize) db of
                  Inl err \<Rightarrow> ([], 0, Some err)
                | Inr resources \<Rightarrow> (resources, total_n, None)))"

definition DAO_Update ::
  "'a resource_ops \<Rightarrow> env \<Rightarrow> error option \<Rightarrow> nat \<Rightarrow> 'a \<Rightarrow> 'a DB \<Rightarrow> 'a \<times> error option \<times> 'a DB" where
  "DAO_Update ops e fault i resource db =
     (case gorm_Updates ops e fault i resource db of
        (r1, result, db1) \<Rightarrow>
          if Error result \<noteq> None then (r1, Error result, db1)
          else if RowsAffected result = 0 then (r1, Some ErrRecordNotFound, db1)
          else (r1, None, db1))"

definition DAO_Delete ::
  "'a resource_ops \<Rightarrow> env \<Rightarrow> error option \<Rightarrow> nat \<Rightarrow> 'a DB \<Rightarrow> error option \<times> 'a DB" where
  "DAO_Delete ops e fault i db =
     (case gorm_Delete ops e fault i db of
        (result, db1) \<Rightarrow>
          if Error result \<noteq> None then (Error result, db1)
          else if RowsAffected result = 0 then (Some ErrRecordNotFound, db1)
          else (None, db1))"

definition DAO_Transaction ::
  "('a DB \<Rightarrow> 'r \<times> error option \<times> 'a DB) \<Rightarrow> 'a DB \<Rightarrow> 'r \<times> error option \<times> 'a DB" where
  "DAO_Transaction fc db = gorm_Transaction fc db"

section \<open>internal: the handlers\<close>

text \<open>
  A handler maps the request and the store to the response it writes and the store it
  leaves. Of the request it reads the \<^verbatim>\<open>:id\<close> path segment, the query (each key with its
  first value, the only one read) and the body: \<open>bind obj\<close> is \<^verbatim>\<open>c.ShouldBindJSON(&obj)\<close>,
  the decoded body laid over \<open>obj\<close>, or the decoder's error.
\<close>

record 'a ListResponse =
  Items :: "'a list"
  Total :: int
  Page :: go_int
  Size :: go_int

datatype 'a body =
    JSON_error string
  | JSON_resource 'a
  | JSON_items "'a list"
  | JSON_list "'a ListResponse"
  | No_body

type_synonym 'a response = "nat \<times> 'a body"

abbreviation StatusOK :: nat where "StatusOK \<equiv> 200"
abbreviation StatusCreated :: nat where "StatusCreated \<equiv> 201"
abbreviation StatusNoContent :: nat where "StatusNoContent \<equiv> 204"
abbreviation StatusBadRequest :: nat where "StatusBadRequest \<equiv> 400"
abbreviation StatusNotFound :: nat where "StatusNotFound \<equiv> 404"
abbreviation StatusInternalServerError :: nat where "StatusInternalServerError \<equiv> 500"

definition DefaultQuery :: "(string \<times> string) list \<Rightarrow> string \<Rightarrow> string \<Rightarrow> string" where
  "DefaultQuery query key defaultValue =
     (case map_of query key of Some v \<Rightarrow> v | None \<Rightarrow> defaultValue)"

definition Router_Create ::
  "'a resource_ops \<Rightarrow> env \<Rightarrow> error option \<Rightarrow> ('a \<Rightarrow> error + 'a) \<Rightarrow> 'a DB \<Rightarrow> 'a response \<times> 'a DB" where
  "Router_Create ops e fault bind db =
     (case bind (zero ops) of
        Inl err \<Rightarrow> ((StatusBadRequest, JSON_error (Error_msg err)), db)
      | Inr resource \<Rightarrow>
         (case (case validator ops of None \<Rightarrow> None | Some validate \<Rightarrow> validate resource) of
            Some err \<Rightarrow> ((StatusBadRequest, JSON_error (Error_msg err)), db)
          | None \<Rightarrow>
             (case DAO_Create ops e fault resource db of
                (r1, Some err, db1) \<Rightarrow>
                  ((StatusInternalServerError, JSON_error (Error_msg err)), db1)
              | (r1, None, db1) \<Rightarrow> ((StatusCreated, JSON_resource r1), db1))))"

definition Router_List ::
  "'a resource_ops \<Rightarrow> error option \<Rightarrow> error option \<Rightarrow> (string \<times> string) list \<Rightarrow> 'a DB \<Rightarrow>
   'a response \<times> 'a DB" where
  "Router_List ops fault_count fault_find query db =
     (let page = fst (Atoi (DefaultQuery query ''page'' ''1''));
          pageSize = fst (Atoi (DefaultQuery query ''size'' ''10''))
      in case DAO_List ops fault_count fault_find page pageSize None db of
           (items, total_n, Some err) \<Rightarrow>
             ((StatusInternalServerError, JSON_error (Error_msg err)), db)
         | (items, total_n, None) \<Rightarrow> ((StatusOK, JSON_items items), db))"

definition Router_Get ::
  "'a resource_ops \<Rightarrow> error option \<Rightarrow> string \<Rightarrow> 'a DB \<Rightarrow> 'a response \<times> 'a DB" where
  "Router_Get ops fault id_param db =
     (case ParseUint id_param 64 of
        (i, Some err) \<Rightarrow> ((StatusBadRequest, JSON_error ''invalid id''), db)
      | (i, None) \<Rightarrow>
         (case DAO_Get ops fault i db of
            Inl err \<Rightarrow>
              if err = ErrRecordNotFound
              then ((StatusNotFound, JSON_error ''resource not found''), db)
              else ((StatusInternalServerError, JSON_error (Error_msg err)), db)
          | Inr resource \<Rightarrow> ((StatusOK, JSON_resource resource), db)))"

definition Router_Update ::
  "'a resource_ops \<Rightarrow> env \<Rightarrow> error option \<Rightarrow> string \<Rightarrow> ('a \<Rightarrow> error + 'a) \<Rightarrow> 'a DB \<Rightarrow>
   'a response \<times> 'a DB" where
  "Router_Update ops e fault id_param bind db =
     (case ParseUint id_param 64 of
        (i, Some err) \<Rightarrow> ((StatusBadRequest, JSON_error ''invalid id''), db)
      | (i, None) \<Rightarrow>
         (case bind (zero ops) of
            Inl err \<Rightarrow> ((StatusBadRequest, JSON_error (Error_msg err)), db)
          | Inr resource \<Rightarrow>
             (case DAO_Update ops e fault i resource db of
                (r1, Some err, db1) \<Rightarrow>
                  if err = ErrRecordNotFound
                  then ((StatusNotFound, JSON_error ''resource not found''), db1)
                  else ((StatusInternalServerError, JSON_error (Error_msg err)), db1)
              | (r1, None, db1) \<Rightarrow> ((StatusOK, JSON_resource r1), db1))))"

definition Router_Delete ::
  "'a resource_ops \<Rightarrow> env \<Rightarrow> error option \<Rightarrow> string \<Rightarrow> 'a DB \<Rightarrow> 'a response \<times> 'a DB" where
  "Router_Delete ops e fault id_param db =
     (case ParseUint id_param 64 of
        (i, Some err) \<Rightarrow> ((StatusBadRequest, JSON_error ''invalid id''), db)
      | (i, None) \<Rightarrow>
         (case DAO_Delete ops e fault i db of
            (Some err, db1) \<Rightarrow>
              if err = ErrRecordNotFound
              then ((StatusNotFound, JSON_error ''resource not found''), db1)
              else ((StatusInternalServerError, JSON_error (Error_msg err)), db1)
          | (None, db1) \<Rightarrow> ((StatusNoContent, No_body), db1)))"

text \<open>The handlers that \<^verbatim>\<open>RegisterResource\<close> registers, one definition per route.\<close>

definition RegisterResource_POST ::
  "'a resource_ops \<Rightarrow> env \<Rightarrow> error option \<Rightarrow> ('a \<Rightarrow> error + 'a) \<Rightarrow> 'a DB \<Rightarrow> 'a response \<times> 'a DB" where
  "RegisterResource_POST ops e fault bind db =
     (case bind (zero ops) of
        Inl err \<Rightarrow> ((StatusBadRequest, JSON_error (Error_msg err)), db)
      | Inr obj \<Rightarrow>
         (case DAO_Transaction (\<lambda>tx. gorm_Create ops e fault obj tx) db of
            (obj1, Some err, db1) \<Rightarrow>
              ((StatusInternalServerError, JSON_error (Error_msg err)), db1)
          | (obj1, None, db1) \<Rightarrow> ((StatusCreated, JSON_resource obj1), db1)))"

definition RegisterResource_GET_id ::
  "'a resource_ops \<Rightarrow> error option \<Rightarrow> string \<Rightarrow> 'a DB \<Rightarrow> 'a response \<times> 'a DB" where
  "RegisterResource_GET_id ops fault id_param db =
     (case ParseUint id_param 32 of
        (i, Some err) \<Rightarrow> ((StatusBadRequest, JSON_error ''Invalid ID format''), db)
      | (i, None) \<Rightarrow>
         (case DAO_Get ops fault i db of
            Inl err \<Rightarrow>
              if err = ErrRecordNotFound
              then ((StatusNotFound, JSON_error ''Resource not found''), db)
              else ((StatusInternalServerError, JSON_error (Error_msg err)), db)
          | Inr obj \<Rightarrow> ((StatusOK, JSON_resource obj), db)))"

definition RegisterResource_GET_list ::
  "'a resource_ops \<Rightarrow> error option \<Rightarrow> error option \<Rightarrow> (string \<times> string) list \<Rightarrow> 'a DB \<Rightarrow>
   'a response \<times> 'a DB" where
  "RegisterResource_GET_list ops fault_count fault_find query db =
     (let page = fst (Atoi (DefaultQuery query ''page'' ''1''));
          pageSize = fst (Atoi (DefaultQuery query ''size'' ''10''));
          filters = filter (\<lambda>(key, v). key \<noteq> ''page'' \<and> key \<noteq> ''size'') query
      in case DAO_List ops fault_count fault_find page pageSize (Some filters) db of
           (items, total_n, Some err) \<Rightarrow>
             ((StatusInternalServerError, JSON_error (Error_msg err)), db)
         | (items, total_n, None) \<Rightarrow>
             ((StatusOK,
               JSON_list \<lparr>Items = items, Total = total_n, Page = page, Size = pageSize\<rparr>), db))"

definition RegisterResource_PUT ::
  "'a resource_ops \<Rightarrow> env \<Rightarrow> error option \<Rightarrow> error option \<Rightarrow> string \<Rightarrow> ('a \<Rightarrow> error + 'a) \<Rightarrow>
   'a DB \<Rightarrow> 'a response \<times> 'a DB" where
  "RegisterResource_PUT ops e fault_first fault_save id_param bind db =
     (case ParseUint id_param 32 of
        (i, Some err) \<Rightarrow> ((StatusBadRequest, JSON_error ''Invalid ID format''), db)
      | (i, None) \<Rightarrow>
         (case gorm_First ops fault_first i db of
            Inl err \<Rightarrow>
              if err = ErrRecordNotFound
              then ((StatusNotFound, JSON_error ''Resource not found''), db)
              else ((StatusInternalServerError, JSON_error (Error_msg err)), db)
          | Inr obj0 \<Rightarrow>
             (case bind obj0 of
                Inl err \<Rightarrow> ((StatusBadRequest, JSON_error (Error_msg err)), db)
              | Inr obj \<Rightarrow>
                 (case DAO_Transaction (\<lambda>tx. gorm_Save ops e fault_save obj tx) db of
                    (obj1, Some err, db1) \<Rightarrow>
                      ((StatusInternalServerError, JSON_error (Error_msg err)), db1)
                  | (obj1, None, db1) \<Rightarrow> ((StatusOK, JSON_resource obj1), db1)))))"

definition RegisterResource_DELETE ::
  "'a resource_ops \<Rightarrow> env \<Rightarrow> error option \<Rightarrow> string \<Rightarrow> 'a DB \<Rightarrow> 'a response \<times> 'a DB" where
  "RegisterResource_DELETE ops e fault id_param db =
     (case ParseUint id_param 32 of
        (i, Some err) \<Rightarrow> ((StatusBadRequest, JSON_error ''Invalid ID format''), db)
      | (i, None) \<Rightarrow>
         (case DAO_Transaction
                 (\<lambda>tx. case gorm_Delete ops e fault i tx of
                          (result, tx1) \<Rightarrow> ((), Error result, tx1)) db of
            (u, Some err, db1) \<Rightarrow>
              ((StatusInternalServerError, JSON_error (Error_msg err)), db1)
          | (u, None, db1) \<Rightarrow> ((StatusNoContent, No_body), db1)))"

section \<open>Resource types as the store sees them\<close>

text \<open>
  The schema of a struct that embeds \<^verbatim>\<open>BaseResource\<close>: \<open>write_nonzero z new old\<close> is the
  column after \<^verbatim>\<open>Updates\<close>, where \<open>z\<close> is the zero value of the field's type.
\<close>

definition write_nonzero :: "'v \<Rightarrow> 'v \<Rightarrow> 'v \<Rightarrow> 'v" where
  "write_nonzero z new old = (if new = z then old else new)"

definition BaseResource_updateFields ::
  "'a BaseResource_scheme \<Rightarrow> 'b BaseResource_scheme \<Rightarrow> 'b BaseResource_scheme" where
  "BaseResource_updateFields r row =
     row\<lparr>Kind := write_nonzero [] (Kind r) (Kind row),
         APIVersion := write_nonzero [] (APIVersion r) (APIVersion row),
         UID := write_nonzero [] (UID r) (UID row),
         ResourceVersion := write_nonzero 0 (ResourceVersion r) (ResourceVersion row),
         CreatedAt := write_nonzero 0 (CreatedAt r) (CreatedAt row),
         UpdatedAt := write_nonzero 0 (UpdatedAt r) (UpdatedAt row),
         Labels := write_nonzero None (Labels r) (Labels row),
         Annotations := write_nonzero None (Annotations r) (Annotations row),
         Status :=
           \<lparr>Phase = write_nonzero [] (Phase (Status r)) (Phase (Status row)),
            Message = write_nonzero [] (Message (Status r)) (Message (Status row)),
            Reason = write_nonzero [] (Reason (Status r)) (Reason (Status row)),
            LastTransitionTime = write_nonzero 0 (LastTransitionTime (Status r))
                                   (LastTransitionTime (Status row))\<rparr>\<rparr>"

definition BaseResource_column :: "string \<Rightarrow> ('a BaseResource_scheme \<Rightarrow> string) option" where
  "BaseResource_column name =
     (if name = ''kind'' then Some Kind
      else if name = ''api_version'' then Some APIVersion
      else if name = ''uid'' then Some UID
      else if name = ''phase'' then Some (\<lambda>row. Phase (Status row))
      else if name = ''message'' then Some (\<lambda>row. Message (Status row))
      else if name = ''reason'' then Some (\<lambda>row. Reason (Status row))
      else None)"

definition zero_Status :: ResourceStatus where
  "zero_Status = \<lparr>Phase = [], Message = [], Reason = [], LastTransitionTime = 0\<rparr>"

definition zero_BaseResource :: BaseResource where
  "zero_BaseResource =
     \<lparr>Kind = [], APIVersion = [], ID = 0, UID = [], ResourceVersion = 0, CreatedAt = 0,
      UpdatedAt = 0, Labels = None, Annotations = None, Status = zero_Status\<rparr>"

text \<open>\<^verbatim>\<open>T = meta.BaseResource\<close>: the hooks and \<^verbatim>\<open>Validate\<close> are those of the base type.\<close>

definition BaseResource_ops :: "BaseResource resource_ops" where
  "BaseResource_ops =
     \<lparr>zero = zero_BaseResource,
      primaryKey = ID,
      setPrimaryKey = (\<lambda>i r. r\<lparr>ID := i\<rparr>),
      updateFields = BaseResource_updateFields,
      column = BaseResource_column,
      hookBeforeCreate = (\<lambda>e. BeforeCreate (uuid_New e) (time_Now e)),
      hookBeforeUpdate = (\<lambda>e. BeforeUpdate),
      hookBeforeDelete = (\<lambda>e. BeforeDelete),
      validator = Some Validate\<rparr>"

definition zero_User :: User where
  "zero_User =
     \<lparr>Kind = [], APIVersion = [], ID = 0, UID = [], ResourceVersion = 0, CreatedAt = 0,
      UpdatedAt = 0, Labels = None, Annotations = None, Status = zero_Status,
      Username = [], Email = [], Password = [], FullName = [], IsActive = False\<rparr>"

definition User_updateFields :: "User \<Rightarrow> User \<Rightarrow> User" where
  "User_updateFields r row =
     (BaseResource_updateFields r row)
       \<lparr>Username := write_nonzero [] (Username r) (Username row),
        Email := write_nonzero [] (Email r) (Email row),
        Password := write_nonzero [] (Password r) (Password row),
        FullName := write_nonzero [] (FullName r) (FullName row),
        IsActive := write_nonzero False (IsActive r) (IsActive row)\<rparr>"

definition User_column :: "string \<Rightarrow> (User \<Rightarrow> string) option" where
  "User_column name =
     (if name = ''username'' then Some Username
      else if name = ''email'' then Some Email
      else if name = ''password'' then Some Password
      else if name = ''full_name'' then Some FullName
      else BaseResource_column name)"

text \<open>\<^verbatim>\<open>T = apiv1.User\<close>, the resource that \<^verbatim>\<open>main\<close> registers.\<close>

definition User_ops :: "User resource_ops" where
  "User_ops =
     \<lparr>zero = zero_User,
      primaryKey = ID,
      setPrimaryKey = (\<lambda>i r. r\<lparr>ID := i\<rparr>),
      updateFields = User_updateFields,
      column = User_column,
      hookBeforeCreate = (\<lambda>e. User_BeforeCreate (bcrypt e) (uuid_New e) (time_Now e)),
      hookBeforeUpdate = (\<lambda>e. User_BeforeUpdate (bcrypt e) (time_Now e)),
      hookBeforeDelete = (\<lambda>e. User_BeforeDelete (time_Now e)),
      validator = Some User_Validate\<rparr>"

section \<open>Values used in examples\<close>

text \<open>
  A stand-in for \<^verbatim>\<open>bcrypt.GenerateFromPassword\<close> in examples: it refuses passwords over 72
  bytes, as the package does, and otherwise returns a text with the bcrypt prefix.
\<close>

definition bcrypt_example :: "string \<Rightarrow> error + string" where
  "bcrypt_example p =
     (if 72 < length p then Inl (BcryptError ''bcrypt: password length exceeds 72 bytes'')
      else Inr (''$2a$10$'' @ p))"

definition env0 :: env where
  "env0 = \<lparr>bcrypt = bcrypt_example,
           uuid_New = ''123e4567-e89b-12d3-a456-426614174000'',
           time_Now = 1700000000\<rparr>"

definition empty_DB :: "'a DB" where
  "empty_DB = \<lparr>rows = [], next_id = 1\<rparr>"

text \<open>Request bodies and tables of the examples.\<close>

definition alice_body :: User where
  "alice_body = zero_User\<lparr>Kind := ''User'', APIVersion := ''v1'', Username := ''alice'',
                          Email := ''a@example.com'', Password := ''pw123456''\<rparr>"

definition bob_body :: User where
  "bob_body = zero_User\<lparr>Kind := ''User'', APIVersion := ''v1'', Username := ''bob'',
                        Email := ''b@example.com'', Password := ''pw654321''\<rparr>"

definition two_users :: "User DB" where
  "two_users = \<lparr>rows = [alice_body\<lparr>ID := 1\<rparr>, bob_body\<lparr>ID := 2\<rparr>], next_id = 3\<rparr>"

definition five_rows :: "BaseResource list" where
  "five_rows = map (\<lambda>i. zero_BaseResource\<lparr>ID := i\<rparr>) [1, 2, 3, 4, 5]"

text \<open>A table whose one row has an identifier beyond 32 bits.\<close>

definition big_id_table :: "User DB" where
  "big_id_table = \<lparr>rows = [alice_body\<lparr>ID := 4294967296\<rparr>], next_id = 4294967297\<rparr>"

text \<open>A password of 73 bytes.\<close>

definition long_password :: string where
  "long_password =
     ''correct-horse-battery-staple-correct-horse-battery-staple-correct-horse-b''"

definition short_name_body :: User where
  "short_name_body = alice_body\<lparr>Username := ''ab''\<rparr>"

section \<open>Notions used in the statements\<close>

text \<open>A user row carries the type descriptor of its resource type.\<close>

definition is_User_typed :: "User \<Rightarrow> bool" where
  "is_User_typed u = (Kind u = ''User'' \<and> APIVersion u = ''v1'')"

text \<open>
  A run of the user's create or update hook, each with the environment of its own call, and
  a sequence of such runs on one value, as the store makes them over the life of a user.
\<close>

datatype hook_call = CreateHook env | UpdateHook env

fun run_hook :: "hook_call \<Rightarrow> User \<Rightarrow> User \<times> error option" where
  "run_hook (CreateHook e) u = User_BeforeCreate (bcrypt e) (uuid_New e) (time_Now e) u"
| "run_hook (UpdateHook e) u = User_BeforeUpdate (bcrypt e) (time_Now e) u"

fun hook_env :: "hook_call \<Rightarrow> env" where
  "hook_env (CreateHook e) = e"
| "hook_env (UpdateHook e) = e"

definition run_hooks :: "hook_call list \<Rightarrow> User \<Rightarrow> User" where
  "run_hooks hs u = foldl (\<lambda>u h. fst (run_hook h u)) u hs"

text \<open>
  The path segment read as the specification words it: a non-negative integer in decimal
  notation, and the number it denotes. \<open>fits_uint bitSize s\<close> adds that the number fits the
  bit size a handler parses at.
\<close>

definition spec_nonneg_integer :: "string \<Rightarrow> bool" where
  "spec_nonneg_integer s = (s \<noteq> [] \<and> list_all is_digit s)"

definition decimal_value :: "string \<Rightarrow> nat" where
  "decimal_value s = foldl (\<lambda>n c. n * 10 + (of_char c - 48)) 0 s"

definition fits_uint :: "nat \<Rightarrow> string \<Rightarrow> bool" where
  "fits_uint bitSize s = (spec_nonneg_integer s \<and> decimal_value s < 2 ^ bitSize)"

section \<open>The base hooks\<close>

lemma Validate_ignores_other_fields:
  "Validate (b\<lparr>UID := u\<rparr>) = Validate b"
  "Validate (b\<lparr>ResourceVersion := v\<rparr>) = Validate b"
  "Validate (b\<lparr>Status := s\<rparr>) = Validate b"
  by (simp_all add: Validate_def)

lemma BeforeCreate_UID:
  "UID (fst (BeforeCreate u t b)) = (if UID b = [] then u else UID b)"
  by (simp add: BeforeCreate_def Let_def SetStatus_def)

lemma BeforeCreate_ResourceVersion:
  "ResourceVersion (fst (BeforeCreate u t b)) =
     (if ResourceVersion b = 0 then 1 else ResourceVersion b)"
  by (simp add: BeforeCreate_def Let_def SetStatus_def)

lemma BeforeCreate_Status:
  "Status (fst (BeforeCreate u t b)) =
     (if Phase (Status b) = []
      then \<lparr>Phase = ''Pending'', Message = ''Resource is being created'', Reason = [],
            LastTransitionTime = t\<rparr>
      else Status b)"
  by (simp add: BeforeCreate_def Let_def SetStatus_def)

lemma BeforeCreate_error:
  "snd (BeforeCreate u t b) = Validate (fst (BeforeCreate u t b))"
  by (simp add: BeforeCreate_def Let_def)

lemma BeforeCreate_error_input: "snd (BeforeCreate u t b) = Validate b"
  by (simp add: BeforeCreate_def Let_def SetStatus_def Validate_ignores_other_fields)

lemma gorm_Create_hook_fails:
  "hookBeforeCreate ops e r = (r1, Some err) \<Longrightarrow> gorm_Create ops e fault r db = (r1, Some err, db)"
  by (simp add: gorm_Create_def)

text \<open>
  C7. The contract-level \<open>Validate\<close> succeeds exactly when both \<open>Kind\<close> and \<open>APIVersion\<close>
  are non-empty, and fails with a validation error (an \<^verbatim>\<open>errors.New\<close> value) exactly when
  one of them is empty.
\<close>

theorem Validate_fails_iff_kind_or_apiVersion_empty:
  "(Validate b = None) = (Kind b \<noteq> [] \<and> APIVersion b \<noteq> [])
   \<and> ((\<exists>m. Validate b = Some (ErrorsNew m)) = (Kind b = [] \<or> APIVersion b = []))"
  by (auto simp: Validate_def)

text \<open>
  C1. \<open>BeforeCreate\<close> gives the resource the new uid exactly when its uid is empty, the
  version 1 exactly when its version is zero, and the status with phase \<open>Pending\<close> exactly
  when its phase is empty; every other case keeps the field. Its error is what \<open>Validate\<close>
  says of the resource so prepared. For a resource type whose create hook is this one, a
  failing validation makes \<open>DAO_Create\<close> return that error and leave the store as it was.
\<close>

theorem BeforeCreate_defaults_then_validates:
  "UID (fst (BeforeCreate u t b)) = (if UID b = [] then u else UID b)
   \<and> ResourceVersion (fst (BeforeCreate u t b)) =
       (if ResourceVersion b = 0 then 1 else ResourceVersion b)
   \<and> Status (fst (BeforeCreate u t b)) =
       (if Phase (Status b) = []
        then \<lparr>Phase = ''Pending'', Message = ''Resource is being created'', Reason = [],
              LastTransitionTime = t\<rparr>
        else Status b)
   \<and> snd (BeforeCreate u t b) = Validate (fst (BeforeCreate u t b))
   \<and> (hookBeforeCreate ops = (\<lambda>e. BeforeCreate (uuid_New e) (time_Now e)) \<longrightarrow>
        Validate (fst (BeforeCreate (uuid_New e) (time_Now e) r)) = Some err \<longrightarrow>
        DAO_Create ops e fault r db =
          (fst (BeforeCreate (uuid_New e) (time_Now e) r), Some err, db))"
proof -
  have "DAO_Create ops e fault r db =
          (fst (BeforeCreate (uuid_New e) (time_Now e) r), Some err, db)"
    if hook: "hookBeforeCreate ops = (\<lambda>e. BeforeCreate (uuid_New e) (time_Now e))"
      and bad: "Validate (fst (BeforeCreate (uuid_New e) (time_Now e) r)) = Some err"
  proof -
    have "hookBeforeCreate ops e r =
            (fst (BeforeCreate (uuid_New e) (time_Now e) r), Some err)"
      using bad by (simp add: hook prod_eq_iff BeforeCreate_error)
    then show ?thesis
      unfolding DAO_Create_def by (rule gorm_Create_hook_fails)
  qed
  then show ?thesis
    by (simp only: BeforeCreate_UID BeforeCreate_ResourceVersion BeforeCreate_Status
        BeforeCreate_error [symmetric]) simp
qed

theorem BeforeCreate_defaults_then_validates_witness:
  "hookBeforeCreate BaseResource_ops = (\<lambda>e. BeforeCreate (uuid_New e) (time_Now e))
   \<and> Validate (fst (BeforeCreate (uuid_New env0) (time_Now env0) zero_BaseResource)) =
       Some (ErrorsNew ''kind is required'')
   \<and> UID (fst (BeforeCreate (uuid_New env0) (time_Now env0) zero_BaseResource)) =
       ''123e4567-e89b-12d3-a456-426614174000''
   \<and> fst (snd (DAO_Create BaseResource_ops env0 None zero_BaseResource empty_DB)) =
       Some (ErrorsNew ''kind is required'')
   \<and> snd (snd (DAO_Create BaseResource_ops env0 None zero_BaseResource empty_DB)) = empty_DB"
proof -
  have hook: "hookBeforeCreate BaseResource_ops = (\<lambda>e. BeforeCreate (uuid_New e) (time_Now e))"
    by (simp add: BaseResource_ops_def)
  have bad: "Validate (fst (BeforeCreate (uuid_New env0) (time_Now env0) zero_BaseResource)) =
               Some (ErrorsNew ''kind is required'')"
    unfolding BeforeCreate_error [symmetric] BeforeCreate_error_input
    by (simp add: Validate_def zero_BaseResource_def)
  have uid: "UID (fst (BeforeCreate (uuid_New env0) (time_Now env0) zero_BaseResource)) =
               ''123e4567-e89b-12d3-a456-426614174000''"
    by (simp add: BeforeCreate_UID zero_BaseResource_def env0_def)
  from BeforeCreate_defaults_then_validates
         [of "uuid_New env0" "time_Now env0" zero_BaseResource BaseResource_ops env0
             zero_BaseResource "ErrorsNew ''kind is required''" None empty_DB]
  have "DAO_Create BaseResource_ops env0 None zero_BaseResource empty_DB =
          (fst (BeforeCreate (uuid_New env0) (time_Now env0) zero_BaseResource),
           Some (ErrorsNew ''kind is required''), empty_DB)"
    using hook bad by blast
  then show ?thesis using hook bad uid by simp
qed

section \<open>The user hooks\<close>

lemma BeforeCreate_keeps:
  "Kind (fst (BeforeCreate uu t b)) = Kind b"
  "APIVersion (fst (BeforeCreate uu t b)) = APIVersion b"
  "Password (fst (BeforeCreate uu t u)) = Password u"
  by (simp_all add: BeforeCreate_def Let_def SetStatus_def)

lemma BeforeUpdate_keeps:
  "Kind (fst (BeforeUpdate b)) = Kind b"
  "APIVersion (fst (BeforeUpdate b)) = APIVersion b"
  "Password (fst (BeforeUpdate u)) = Password u"
  "snd (BeforeUpdate b) = Validate b"
  by (simp_all add: BeforeUpdate_def Let_def Validate_def)

lemma User_BeforeCreate_Kind:
  "Kind (fst (User_BeforeCreate bc uu t u)) = ''User''"
  "APIVersion (fst (User_BeforeCreate bc uu t u)) = ''v1''"
  by (simp_all add: User_BeforeCreate_def Let_def SetStatus_def BeforeCreate_keeps split: sum.split)

lemma User_BeforeUpdate_Kind:
  "Kind (fst (User_BeforeUpdate bc t u)) = ''User''"
  "APIVersion (fst (User_BeforeUpdate bc t u)) = ''v1''"
  by (simp_all add: User_BeforeUpdate_def Let_def SetStatus_def BeforeUpdate_keeps split: sum.split)

lemma Validate_typed: "Kind b = ''User'' \<Longrightarrow> APIVersion b = ''v1'' \<Longrightarrow> Validate b = None"
  by (simp add: Validate_def)

lemma User_BeforeCreate_error:
  "snd (User_BeforeCreate bc uu t u) = None
   \<or> (\<exists>err. bc (Password u) = Inl err \<and> snd (User_BeforeCreate bc uu t u) = Some err)"
  by (simp add: User_BeforeCreate_def Let_def SetStatus_def BeforeCreate_error_input Validate_def
      split: sum.split)

lemma User_BeforeUpdate_error:
  "snd (User_BeforeUpdate bc t u) = None
   \<or> (\<exists>err. bc (Password u) = Inl err \<and> snd (User_BeforeUpdate bc t u) = Some err)"
  by (simp add: User_BeforeUpdate_def Let_def SetStatus_def BeforeUpdate_keeps Validate_def
      split: sum.split)

lemma User_BeforeCreate_Password_hashed:
  "prefix ''$2a$'' (Password u) \<Longrightarrow> Password (fst (User_BeforeCreate bc uu t u)) = Password u"
  by (simp add: User_BeforeCreate_def Let_def SetStatus_def BeforeCreate_keeps)

lemma User_BeforeUpdate_Password_hashed:
  "prefix ''$2a$'' (Password u) \<Longrightarrow> Password (fst (User_BeforeUpdate bc t u)) = Password u"
  by (simp add: User_BeforeUpdate_def Let_def SetStatus_def BeforeUpdate_keeps)

lemma User_BeforeCreate_Password_plain:
  "\<not> prefix ''$2a$'' (Password u) \<Longrightarrow> bc (Password u) = Inr h \<Longrightarrow>
   Password (fst (User_BeforeCreate bc uu t u)) = h"
  by (simp add: User_BeforeCreate_def Let_def SetStatus_def BeforeCreate_keeps)

lemma User_BeforeUpdate_Password_plain:
  "\<not> prefix ''$2a$'' (Password u) \<Longrightarrow> bc (Password u) = Inr h \<Longrightarrow>
   Password (fst (User_BeforeUpdate bc t u)) = h"
  by (simp add: User_BeforeUpdate_def Let_def SetStatus_def BeforeUpdate_keeps)

lemma User_BeforeCreate_Password_error:
  "\<not> prefix ''$2a$'' (Password u) \<Longrightarrow> bc (Password u) = Inl err \<Longrightarrow>
   User_BeforeCreate bc uu t u = (SetStatus t ''Active'' ''User created successfully'' ''Created'' (u\<lparr>Kind := ''User'', APIVersion := ''v1''\<rparr>), Some err)"
  by (simp add: User_BeforeCreate_def Let_def SetStatus_def)

lemma run_hook_Password_hashed:
  "prefix ''$2a$'' (Password u) \<Longrightarrow> Password (fst (run_hook h u)) = Password u"
  by (cases h) (simp_all add: User_BeforeCreate_Password_hashed User_BeforeUpdate_Password_hashed)

lemma run_hooks_Password_hashed:
  "prefix ''$2a$'' (Password u) \<Longrightarrow> Password (run_hooks hs u) = Password u"
  unfolding run_hooks_def
  by (induction hs arbitrary: u) (simp_all add: run_hook_Password_hashed)

lemma run_hook_success_hashed:
  assumes "\<And>p h. bcrypt (hook_env h0) p = Inr h \<Longrightarrow> prefix ''$2a$'' h"
    and "snd (run_hook h0 u) = None"
  shows "prefix ''$2a$'' (Password (fst (run_hook h0 u)))"
proof (cases "prefix ''$2a$'' (Password u)")
  case True
  then show ?thesis by (simp add: run_hook_Password_hashed)
next
  case False
  show ?thesis
  proof (cases "bcrypt (hook_env h0) (Password u)")
    case (Inl err)
    with False assms(2) show ?thesis
      by (cases h0) (simp_all add: User_BeforeCreate_def User_BeforeUpdate_def Let_def SetStatus_def)
  next
    case (Inr h)
    with False have "Password (fst (run_hook h0 u)) = h"
      by (cases h0) (simp_all add: User_BeforeCreate_Password_plain User_BeforeUpdate_Password_plain)
    with assms(1) Inr show ?thesis by simp
  qed
qed


lemma User_ops_simps:
  "zero User_ops = zero_User"
  "primaryKey User_ops = ID"
  "setPrimaryKey User_ops = (\<lambda>i r. r\<lparr>ID := i\<rparr>)"
  "updateFields User_ops = User_updateFields"
  "column User_ops = User_column"
  "hookBeforeCreate User_ops = (\<lambda>e. User_BeforeCreate (bcrypt e) (uuid_New e) (time_Now e))"
  "hookBeforeUpdate User_ops = (\<lambda>e. User_BeforeUpdate (bcrypt e) (time_Now e))"
  "hookBeforeDelete User_ops = (\<lambda>e. User_BeforeDelete (time_Now e))"
  "validator User_ops = Some User_Validate"
  by (simp_all add: User_ops_def)

lemma is_User_typed_ID: "is_User_typed (u\<lparr>ID := i\<rparr>) = is_User_typed u"
  by (simp add: is_User_typed_def)

lemma is_User_typed_updateFields:
  "is_User_typed r \<Longrightarrow> is_User_typed (User_updateFields r row)"
  by (simp add: is_User_typed_def User_updateFields_def BaseResource_updateFields_def
      write_nonzero_def)

lemma is_User_typed_hookBeforeCreate:
  "is_User_typed (fst (hookBeforeCreate User_ops e u))"
  by (simp add: User_ops_simps is_User_typed_def User_BeforeCreate_Kind)

lemma is_User_typed_hookBeforeUpdate:
  "is_User_typed (fst (hookBeforeUpdate User_ops e u))"
  by (simp add: User_ops_simps is_User_typed_def User_BeforeUpdate_Kind)

lemma gorm_Create_User_typed:
  assumes "list_all is_User_typed (rows db)"
  shows "list_all is_User_typed (rows (snd (snd (gorm_Create User_ops e fault u db))))"
proof -
  obtain r1 err where h: "hookBeforeCreate User_ops e u = (r1, err)" by (cases "hookBeforeCreate User_ops e u")
  have "is_User_typed r1" using is_User_typed_hookBeforeCreate [of e u] h by simp
  with assms h show ?thesis
    by (simp add: gorm_Create_def User_ops_simps(2,3) is_User_typed_ID Let_def list_all_iff
        set_insort_key split: option.split)
qed

lemma gorm_Updates_User_typed:
  assumes "list_all is_User_typed (rows db)"
  shows "list_all is_User_typed (rows (snd (snd (gorm_Updates User_ops e fault i u db))))"
proof -
  obtain r1 err where h: "hookBeforeUpdate User_ops e u = (r1, err)" by (cases "hookBeforeUpdate User_ops e u")
  have "is_User_typed r1" using is_User_typed_hookBeforeUpdate [of e u] h by simp
  with assms h show ?thesis
    by (auto simp add: gorm_Updates_def User_ops_simps(4) Let_def list_all_iff is_User_typed_updateFields split: option.split)
qed

lemma gorm_Save_User_typed:
  assumes "list_all is_User_typed (rows db)"
  shows "list_all is_User_typed (rows (snd (snd (gorm_Save User_ops e fault u db))))"
proof (cases "primaryKey User_ops u = 0")
  case True
  then show ?thesis using gorm_Create_User_typed [OF assms] by (simp add: gorm_Save_def)
next
  case False
  obtain r1 err where h: "hookBeforeUpdate User_ops e u = (r1, err)" by (cases "hookBeforeUpdate User_ops e u")
  have "is_User_typed r1" using is_User_typed_hookBeforeUpdate [of e u] h by simp
  with assms h False show ?thesis
    by (auto simp add: gorm_Save_def Let_def list_all_iff set_insort_key split: option.split)
qed


text \<open>
  C9. Whatever kind and apiVersion the client sent, after the user's create hook and after
  its update hook the value has \<open>Kind = ''User''\<close> and \<open>APIVersion = ''v1''\<close>, the
  contract-level \<open>Validate\<close> accepts it, and the only error the hook can return is the one
  \<open>bcrypt\<close> returned. Hence the store's create, update and save keep every user row typed
  \<open>User\<close>/\<open>v1\<close>.
\<close>

theorem User_hooks_set_type_before_validation:
  "Kind (fst (User_BeforeCreate bc uu t u)) = ''User''
   \<and> APIVersion (fst (User_BeforeCreate bc uu t u)) = ''v1''
   \<and> Validate (fst (User_BeforeCreate bc uu t u)) = None
   \<and> (snd (User_BeforeCreate bc uu t u) = None
      \<or> (\<exists>err. bc (Password u) = Inl err \<and> snd (User_BeforeCreate bc uu t u) = Some err))
   \<and> Kind (fst (User_BeforeUpdate bc t u)) = ''User''
   \<and> APIVersion (fst (User_BeforeUpdate bc t u)) = ''v1''
   \<and> Validate (fst (User_BeforeUpdate bc t u)) = None
   \<and> (snd (User_BeforeUpdate bc t u) = None
      \<or> (\<exists>err. bc (Password u) = Inl err \<and> snd (User_BeforeUpdate bc t u) = Some err))
   \<and> (list_all is_User_typed (rows db) \<longrightarrow>
        list_all is_User_typed (rows (snd (snd (gorm_Create User_ops e fault u db))))
        \<and> list_all is_User_typed (rows (snd (snd (gorm_Updates User_ops e fault i u db))))
        \<and> list_all is_User_typed (rows (snd (snd (gorm_Save User_ops e fault u db)))))"
  using User_BeforeCreate_error [of bc uu t u] User_BeforeUpdate_error [of bc t u]
    gorm_Create_User_typed [of db e fault u] gorm_Updates_User_typed [of db e fault i u]
    gorm_Save_User_typed [of db e fault u]
  by (simp add: User_BeforeCreate_Kind User_BeforeUpdate_Kind Validate_typed)

theorem User_hooks_set_type_before_validation_witness:
  "list_all is_User_typed (rows empty_DB)
   \<and> list_all is_User_typed
       (rows (snd (snd (gorm_Create User_ops env0 None
                          (zero_User\<lparr>Kind := ''Admin'', Password := ''pw123456''\<rparr>) empty_DB))))
   \<and> length (rows (snd (snd (gorm_Create User_ops env0 None
                          (zero_User\<lparr>Kind := ''Admin'', Password := ''pw123456''\<rparr>) empty_DB)))) = 1"
proof -
  have start: "list_all is_User_typed (rows (empty_DB :: User DB))"
    by (simp add: empty_DB_def)
  have n: "length (rows (snd (snd (gorm_Create User_ops env0 None
             (zero_User\<lparr>Kind := ''Admin'', Password := ''pw123456''\<rparr>) empty_DB)))) = 1"
    by (simp add: gorm_Create_def User_ops_simps User_BeforeCreate_def BeforeCreate_def
        SetStatus_def Validate_def Let_def env0_def bcrypt_example_def zero_User_def
        zero_Status_def empty_DB_def)
  from User_hooks_set_type_before_validation
         [where db = empty_DB and e = env0 and fault = None
            and u = "zero_User\<lparr>Kind := ''Admin'', Password := ''pw123456''\<rparr>"]
  show ?thesis using start n by blast
qed

text \<open>
  C10, as amended. Take any run of the user's create or update hook whose \<open>bcrypt\<close>
  returns hashes that begin with \<open>$2a$\<close>. A password that already begins with \<open>$2a$\<close> is
  left as it is. Any other password is replaced by the hash \<open>bcrypt\<close> returns for it, or,
  when \<open>bcrypt\<close> returns an error, is left as it is while the hook returns that error.
  Once a hook has succeeded, any further sequence of create and update hooks leaves the
  password as that first run left it, so it is never hashed twice.
\<close>

theorem User_hooks_hash_password_once:
  assumes "\<And>p h. bcrypt (hook_env h0) p = Inr h \<Longrightarrow> prefix ''$2a$'' h"
  shows "(prefix ''$2a$'' (Password u) \<longrightarrow> Password (fst (run_hook h0 u)) = Password u)
   \<and> (\<not> prefix ''$2a$'' (Password u) \<longrightarrow>
        (\<forall>h. bcrypt (hook_env h0) (Password u) = Inr h \<longrightarrow>
               Password (fst (run_hook h0 u)) = h \<and> prefix ''$2a$'' h))
   \<and> (snd (run_hook h0 u) = None \<longrightarrow>
        Password (run_hooks hs (fst (run_hook h0 u))) = Password (fst (run_hook h0 u)))
   \<and> (\<not> prefix ''$2a$'' (Password u) \<longrightarrow>
        (\<forall>err. bcrypt (hook_env h0) (Password u) = Inl err \<longrightarrow>
               Password (fst (run_hook h0 u)) = Password u
               \<and> snd (run_hook h0 u) = Some err))"
proof (intro conjI impI allI)
  assume "prefix ''$2a$'' (Password u)"
  then show "Password (fst (run_hook h0 u)) = Password u"
    by (rule run_hook_Password_hashed)
next
  fix h
  assume plain: "\<not> prefix ''$2a$'' (Password u)"
    and hash: "bcrypt (hook_env h0) (Password u) = Inr h"
  then show "Password (fst (run_hook h0 u)) = h"
    by (cases h0)
      (simp_all add: User_BeforeCreate_Password_plain User_BeforeUpdate_Password_plain)
  from hash show "prefix ''$2a$'' h" by (rule assms)
next
  assume "snd (run_hook h0 u) = None"
  with assms have "prefix ''$2a$'' (Password (fst (run_hook h0 u)))"
    by (rule run_hook_success_hashed)
  then show "Password (run_hooks hs (fst (run_hook h0 u))) = Password (fst (run_hook h0 u))"
    by (rule run_hooks_Password_hashed)
next
  fix err
  assume plain: "\<not> prefix ''$2a$'' (Password u)"
    and fails: "bcrypt (hook_env h0) (Password u) = Inl err"
  then show "Password (fst (run_hook h0 u)) = Password u"
    by (cases h0) (simp_all add: User_BeforeCreate_def User_BeforeUpdate_def Let_def SetStatus_def)
  from plain fails show "snd (run_hook h0 u) = Some err"
    by (cases h0) (simp_all add: User_BeforeCreate_def User_BeforeUpdate_def Let_def SetStatus_def)
qed

theorem User_hooks_hash_password_once_witness:
  "snd (run_hook (CreateHook env0) (zero_User\<lparr>Password := ''pw123456''\<rparr>)) = None
   \<and> \<not> prefix ''$2a$'' ''pw123456''
   \<and> Password (fst (run_hook (CreateHook env0) (zero_User\<lparr>Password := ''pw123456''\<rparr>))) =
       ''$2a$10$pw123456''
   \<and> Password (run_hooks [UpdateHook env0, UpdateHook env0, CreateHook env0]
        (fst (run_hook (CreateHook env0) (zero_User\<lparr>Password := ''pw123456''\<rparr>)))) =
       ''$2a$10$pw123456''"
proof -
  have pre: "\<And>p h. bcrypt (hook_env (CreateHook env0)) p = Inr h \<Longrightarrow> prefix ''$2a$'' h"
    by (auto simp: env0_def bcrypt_example_def split: if_splits)
  have ok: "snd (run_hook (CreateHook env0) (zero_User\<lparr>Password := ''pw123456''\<rparr>)) = None"
    by (simp add: User_BeforeCreate_def BeforeCreate_def SetStatus_def Validate_def Let_def
        env0_def bcrypt_example_def zero_User_def zero_Status_def)
  have plain: "\<not> prefix ''$2a$'' ''pw123456''" by simp
  have hash: "bcrypt (hook_env (CreateHook env0)) (Password (zero_User\<lparr>Password := ''pw123456''\<rparr>))
                = Inr ''$2a$10$pw123456''"
    by (simp add: env0_def bcrypt_example_def)
  from User_hooks_hash_password_once
         [of "CreateHook env0" "zero_User\<lparr>Password := ''pw123456''\<rparr>"
             "[UpdateHook env0, UpdateHook env0, CreateHook env0]", OF pre]
  show ?thesis using ok plain hash by simp
qed

text \<open>
  C10, the claim as stated fails: a password of 73 bytes does not begin with \<open>$2a$\<close>, yet
  neither hook replaces it with a hash; \<open>bcrypt\<close> refuses it, the hook returns that error
  and the password stays in plain text.
\<close>

theorem long_password_is_not_hashed:
  "\<not> prefix ''$2a$'' long_password
   \<and> User_BeforeCreate bcrypt_example (uuid_New env0) (time_Now env0)
         (zero_User\<lparr>Password := long_password\<rparr>) =
       (SetStatus (time_Now env0) ''Active'' ''User created successfully'' ''Created''
          (zero_User\<lparr>Kind := ''User'', APIVersion := ''v1'', Password := long_password\<rparr>),
        Some (BcryptError ''bcrypt: password length exceeds 72 bytes''))
   \<and> Password (fst (User_BeforeCreate bcrypt_example (uuid_New env0) (time_Now env0)
                      (zero_User\<lparr>Password := long_password\<rparr>))) = long_password
   \<and> Password (fst (User_BeforeUpdate bcrypt_example (time_Now env0)
                      (zero_User\<lparr>Password := long_password\<rparr>))) = long_password
   \<and> snd (User_BeforeUpdate bcrypt_example (time_Now env0)
            (zero_User\<lparr>Password := long_password\<rparr>)) =
       Some (BcryptError ''bcrypt: password length exceeds 72 bytes'')"
  by (simp add: User_BeforeCreate_def User_BeforeUpdate_def SetStatus_def Let_def
      bcrypt_example_def zero_User_def long_password_def)

section \<open>Identifier parsing\<close>

lemma foldl_digits_ge: "(n::nat) \<le> foldl (\<lambda>n c. n * 10 + (of_char c - 48)) n (cs :: string)"
proof (induction cs arbitrary: n)
  case Nil
  show ?case by simp
next
  case (Cons c cs)
  have "n \<le> n * 10 + (of_char c - 48)" by simp
  also have "\<dots> \<le> foldl (\<lambda>n c. n * 10 + (of_char c - 48)) (n * 10 + (of_char c - 48)) cs"
    by (rule Cons.IH)
  finally show ?case by simp
qed

lemma ParseUint_loop_None:
  assumes "maxVal \<le> 2 ^ 64 - 1" and "n \<le> maxVal"
  shows "(snd (ParseUint_loop maxVal n s) = None) =
           (list_all is_digit s \<and> foldl (\<lambda>n c. n * 10 + (of_char c - 48)) n s \<le> maxVal)"
  using assms(2)
proof (induction s arbitrary: n)
  case Nil
  then show ?case by simp
next
  case (Cons c cs)
  let ?n1 = "n * 10 + (of_char c - 48 :: nat)"
  have ge: "?n1 \<le> foldl (\<lambda>n c. n * 10 + (of_char c - 48)) ?n1 cs"
    by (rule foldl_digits_ge)
  show ?case
  proof (cases "is_digit c")
    case False
    then show ?thesis by simp
  next
    case True
    show ?thesis
    proof (cases "(2 ^ 64 - 1) div 10 + 1 \<le> n")
      case big: True
      then have "maxVal < ?n1" using assms(1) by simp
      with ge big True show ?thesis by simp
    next
      case small: False
      show ?thesis
      proof (cases "maxVal < ?n1")
        case over: True
        with ge small True show ?thesis by simp
      next
        case False
        then have "?n1 \<le> maxVal" by simp
        from Cons.IH [OF this] True small False show ?thesis by simp
      qed
    qed
  qed
qed

lemma ParseUint_loop_value:
  "snd (ParseUint_loop maxVal n s) = None \<Longrightarrow>
   fst (ParseUint_loop maxVal n s) = foldl (\<lambda>n c. n * 10 + (of_char c - 48)) n s"
  by (induction s arbitrary: n) (simp_all split: if_splits)

lemma ParseUint_None:
  assumes "bitSize \<le> 64"
  shows "(snd (ParseUint s bitSize) = None) = fits_uint bitSize s"
proof -
  have mx: "(2::nat) ^ bitSize - 1 \<le> 2 ^ 64 - 1"
    using assms power_increasing [of bitSize 64 "2::nat"] by simp
  have pos: "0 < (2::nat) ^ bitSize" by simp
  have "(decimal_value s \<le> 2 ^ bitSize - 1) = (decimal_value s < 2 ^ bitSize)"
    using pos by linarith
  then show ?thesis
    using ParseUint_loop_None [OF mx, of 0 s]
    by (auto simp add: ParseUint_def fits_uint_def spec_nonneg_integer_def decimal_value_def)
qed

lemma ParseUint_value:
  "snd (ParseUint s bitSize) = None \<Longrightarrow> fst (ParseUint s bitSize) = decimal_value s"
  using ParseUint_loop_value [of "2 ^ bitSize - 1" 0 s]
  by (simp add: ParseUint_def decimal_value_def split: if_splits)


lemma id_rejected_Router:
  assumes "snd (ParseUint s 64) \<noteq> None"
  shows "Router_Get ops fault s db = ((StatusBadRequest, JSON_error ''invalid id''), db)
    \<and> Router_Update ops e fault s bind db = ((StatusBadRequest, JSON_error ''invalid id''), db)
    \<and> Router_Delete ops e fault s db = ((StatusBadRequest, JSON_error ''invalid id''), db)"
  using assms
  by (auto simp: Router_Get_def Router_Update_def Router_Delete_def split: prod.splits option.splits)

lemma id_rejected_RegisterResource:
  assumes "snd (ParseUint s 32) \<noteq> None"
  shows "RegisterResource_GET_id ops fault s db =
           ((StatusBadRequest, JSON_error ''Invalid ID format''), db)
    \<and> RegisterResource_PUT ops e fault fault2 s bind db =
           ((StatusBadRequest, JSON_error ''Invalid ID format''), db)
    \<and> RegisterResource_DELETE ops e fault s db =
           ((StatusBadRequest, JSON_error ''Invalid ID format''), db)"
  using assms
  by (auto simp: RegisterResource_GET_id_def RegisterResource_PUT_def RegisterResource_DELETE_def
      split: prod.splits option.splits)

lemma id_accepted_Router:
  assumes "snd (ParseUint s 64) = None"
  shows "fst (fst (Router_Get ops fault s db)) \<noteq> StatusBadRequest
    \<and> fst (fst (Router_Delete ops e fault s db)) \<noteq> StatusBadRequest
    \<and> (fst (fst (Router_Update ops e fault s bind db)) = StatusBadRequest \<longrightarrow>
           (\<exists>err. bind (zero ops) = Inl err))"
  using assms
  by (auto simp: Router_Get_def Router_Update_def Router_Delete_def
      split: prod.splits option.splits sum.splits)

lemma id_accepted_RegisterResource:
  assumes "snd (ParseUint s 32) = None"
  shows "fst (fst (RegisterResource_GET_id ops fault s db)) \<noteq> StatusBadRequest
    \<and> fst (fst (RegisterResource_DELETE ops e fault s db)) \<noteq> StatusBadRequest
    \<and> (fst (fst (RegisterResource_PUT ops e fault fault2 s bind db)) = StatusBadRequest \<longrightarrow>
           (\<exists>obj err. bind obj = Inl err))"
  using assms
  by (auto simp: RegisterResource_GET_id_def RegisterResource_PUT_def RegisterResource_DELETE_def
      split: prod.splits option.splits sum.splits)

text \<open>
  Which path segments the handlers take. A segment that is not a decimal numeral below
  \<open>2 ^ 64\<close> makes the \<open>Router\<close> handlers for GET, PUT and DELETE answer 400 with the store
  untouched, and one that is not a decimal numeral below \<open>2 ^ 32\<close> does so for the
  \<open>RegisterResource\<close> handlers; the answer is then 400 and no other status. For a segment
  that is such a numeral, the GET and DELETE handlers never answer 400, and the PUT
  handlers answer 400 only when decoding the body fails.
\<close>

lemma malformed_id_is_400:
  "(\<not> fits_uint 64 s \<longrightarrow>
      Router_Get ops fault s db = ((StatusBadRequest, JSON_error ''invalid id''), db)
      \<and> Router_Update ops e fault s bind db = ((StatusBadRequest, JSON_error ''invalid id''), db)
      \<and> Router_Delete ops e fault s db = ((StatusBadRequest, JSON_error ''invalid id''), db))
   \<and> (\<not> fits_uint 32 s \<longrightarrow>
      RegisterResource_GET_id ops fault s db =
        ((StatusBadRequest, JSON_error ''Invalid ID format''), db)
      \<and> RegisterResource_PUT ops e fault fault2 s bind db =
        ((StatusBadRequest, JSON_error ''Invalid ID format''), db)
      \<and> RegisterResource_DELETE ops e fault s db =
        ((StatusBadRequest, JSON_error ''Invalid ID format''), db))
   \<and> (fits_uint 64 s \<longrightarrow>
      fst (fst (Router_Get ops fault s db)) \<noteq> StatusBadRequest
      \<and> fst (fst (Router_Delete ops e fault s db)) \<noteq> StatusBadRequest
      \<and> (fst (fst (Router_Update ops e fault s bind db)) = StatusBadRequest \<longrightarrow>
           (\<exists>err. bind (zero ops) = Inl err)))
   \<and> (fits_uint 32 s \<longrightarrow>
      fst (fst (RegisterResource_GET_id ops fault s db)) \<noteq> StatusBadRequest
      \<and> fst (fst (RegisterResource_DELETE ops e fault s db)) \<noteq> StatusBadRequest
      \<and> (fst (fst (RegisterResource_PUT ops e fault fault2 s bind db)) = StatusBadRequest \<longrightarrow>
           (\<exists>obj err. bind obj = Inl err)))"
proof -
  have p64: "(snd (ParseUint s 64) = None) = fits_uint 64 s" by (rule ParseUint_None) simp
  have p32: "(snd (ParseUint s 32) = None) = fits_uint 32 s" by (rule ParseUint_None) simp
  show ?thesis
    using id_rejected_Router [where s = s and ops = ops and fault = fault and db = db
        and e = e and bind = bind]
      id_rejected_RegisterResource [where s = s and ops = ops and fault = fault and db = db
        and e = e and bind = bind and ?fault2.0 = fault2]
      id_accepted_Router [where s = s and ops = ops and fault = fault and db = db
        and e = e and bind = bind]
      id_accepted_RegisterResource [where s = s and ops = ops and fault = fault and db = db
        and e = e and bind = bind and ?fault2.0 = fault2]
    unfolding p64 p32 by blast
qed

lemma malformed_id_is_400_examples:
  "\<not> fits_uint 64 ''12x'' \<and> \<not> fits_uint 32 ''-1'' \<and> fits_uint 64 ''42'' \<and> fits_uint 32 ''42''
   \<and> fst (fst (Router_Get User_ops None ''12x'' empty_DB)) = StatusBadRequest
   \<and> fst (fst (RegisterResource_DELETE User_ops env0 None ''-1'' empty_DB)) = StatusBadRequest
   \<and> fst (fst (Router_Get User_ops None ''42'' empty_DB)) \<noteq> StatusBadRequest
   \<and> fst (fst (RegisterResource_GET_id User_ops None ''42'' empty_DB)) \<noteq> StatusBadRequest"
proof -
  have a: "\<not> fits_uint 64 ''12x''" "\<not> fits_uint 32 ''-1''"
    by (simp_all add: fits_uint_def spec_nonneg_integer_def is_digit_def)
  have b: "fits_uint 64 ''42''" "fits_uint 32 ''42''"
    by (simp_all add: fits_uint_def spec_nonneg_integer_def is_digit_def decimal_value_def)
  show ?thesis
    using a b
      malformed_id_is_400 [where s = "''12x''" and ops = User_ops and fault = None
        and db = empty_DB]
      malformed_id_is_400 [where s = "''-1''" and ops = User_ops and fault = None
        and db = empty_DB and e = env0]
      malformed_id_is_400 [where s = "''42''" and ops = User_ops and fault = None
        and db = empty_DB]
    by simp
qed

text \<open>
  C8, a failing input. The identifier \<open>4294967296\<close> is a non-negative integer and a value
  of the identifier's type, and a user sent with it is stored under it by the POST handler
  of \<open>RegisterResource\<close>. \<open>Router_Get\<close>, which parses at 64 bits, finds the row and
  answers 200; the GET, PUT and DELETE handlers of \<open>RegisterResource\<close>, which parse at 32
  bits, answer 400 for the same segment and leave the row where it is.
\<close>

theorem RegisterResource_rejects_identifier_beyond_32_bits:
  "spec_nonneg_integer ''4294967296''
   \<and> decimal_value ''4294967296'' = 4294967296
   \<and> fst (fst (RegisterResource_POST User_ops env0 None
                  (\<lambda>obj. Inr (alice_body\<lparr>ID := 4294967296\<rparr>)) empty_DB)) = StatusCreated
   \<and> map ID (rows (snd (RegisterResource_POST User_ops env0 None
                  (\<lambda>obj. Inr (alice_body\<lparr>ID := 4294967296\<rparr>)) empty_DB))) = [4294967296]
   \<and> Router_Get User_ops None ''4294967296'' big_id_table =
       ((StatusOK, JSON_resource (alice_body\<lparr>ID := 4294967296\<rparr>)), big_id_table)
   \<and> RegisterResource_GET_id User_ops None ''4294967296'' big_id_table =
       ((StatusBadRequest, JSON_error ''Invalid ID format''), big_id_table)
   \<and> RegisterResource_PUT User_ops env0 None None ''4294967296'' (\<lambda>obj. Inr obj) big_id_table =
       ((StatusBadRequest, JSON_error ''Invalid ID format''), big_id_table)
   \<and> RegisterResource_DELETE User_ops env0 None ''4294967296'' big_id_table =
       ((StatusBadRequest, JSON_error ''Invalid ID format''), big_id_table)"
  by (simp add: spec_nonneg_integer_def decimal_value_def is_digit_def ParseUint_def
      RegisterResource_POST_def RegisterResource_GET_id_def RegisterResource_PUT_def
      RegisterResource_DELETE_def Router_Get_def DAO_Get_def gorm_First_def
      DAO_Transaction_def gorm_Transaction_def gorm_Create_def has_id_def User_ops_def
      User_BeforeCreate_def BeforeCreate_def SetStatus_def Validate_def Let_def env0_def
      bcrypt_example_def empty_DB_def big_id_table_def alice_body_def zero_User_def
      zero_Status_def)

section \<open>Pagination\<close>

lemma sint_offset:
  fixes page pageSize :: go_int
  assumes "1 \<le> sint page" and "0 \<le> sint pageSize"
    and "(sint page - 1) * sint pageSize < 2 ^ 63"
  shows "sint ((page - 1) * pageSize) = (sint page - 1) * sint pageSize"
proof -
  have "sint page < 2 ^ 63" using sint_lt [of page] by simp
  with assms(1) have pm: "sint (page - 1) = sint page - 1"
    by (simp add: sint_word_ariths signed_take_bit_int_eq_self)
  have nonneg: "0 \<le> (sint page - 1) * sint pageSize"
    using assms(1,2) by simp
  have "sint ((page - 1) * pageSize) = signed_take_bit 63 (sint (page - 1) * sint pageSize)"
    by (simp add: sint_word_ariths)
  also have "\<dots> = (sint page - 1) * sint pageSize"
    unfolding pm using nonneg assms(3) by (intro signed_take_bit_int_eq_self) simp_all
  finally show ?thesis .
qed

text \<open>
  C6, as amended. For \<open>page \<ge> 1\<close> and \<open>pageSize \<ge> 1\<close> whose offset
  \<open>(page - 1) * pageSize\<close> does not leave the range of \<^verbatim>\<open>int\<close>, a filter the store accepts
  and a store that reports no fault, \<open>DAO_List\<close> returns the matching rows from that
  offset on, at most \<open>pageSize\<close> of them, with the number of all matching rows as the
  total (whatever the page); a page whose offset is at or beyond the number of matching
  rows is empty, with no error.
\<close>

theorem DAO_List_page:
  fixes page pageSize :: go_int
  assumes "1 \<le> sint page" and "1 \<le> sint pageSize"
    and "(sint page - 1) * sint pageSize < 2 ^ 63"
    and "gorm_query ops filter_map = Inr p"
  shows "DAO_List ops None None page pageSize filter_map db =
           (take (nat (sint pageSize))
              (drop (nat ((sint page - 1) * sint pageSize)) (filter p (rows db))),
            int (length (filter p (rows db))), None)
         \<and> (length (filter p (rows db)) \<le> nat ((sint page - 1) * sint pageSize) \<longrightarrow>
              DAO_List ops None None page pageSize filter_map db =
                ([], int (length (filter p (rows db))), None))"
proof -
  have off: "sint ((page - 1) * pageSize) = (sint page - 1) * sint pageSize"
    using assms(1-3) by (intro sint_offset) simp_all
  have "DAO_List ops None None page pageSize filter_map db =
           (take (nat (sint pageSize))
              (drop (nat ((sint page - 1) * sint pageSize)) (filter p (rows db))),
            int (length (filter p (rows db))), None)"
    using assms(2,4)
    by (simp add: DAO_List_def gorm_Count_def gorm_Find_def Let_def off)
  then show ?thesis by simp
qed

theorem DAO_List_page_witness:
  "1 \<le> sint (2 :: go_int) \<and> (sint (2 :: go_int) - 1) * sint (2 :: go_int) < 2 ^ 63
   \<and> gorm_query BaseResource_ops None = Inr (\<lambda>row. True)
   \<and> map ID (fst (DAO_List BaseResource_ops None None 2 2 None
                     \<lparr>rows = five_rows, next_id = 6\<rparr>)) = [3, 4]
   \<and> fst (snd (DAO_List BaseResource_ops None None 2 2 None
                  \<lparr>rows = five_rows, next_id = 6\<rparr>)) = 5
   \<and> DAO_List BaseResource_ops None None 4 2 None \<lparr>rows = five_rows, next_id = 6\<rparr> =
       ([], 5, None)"
proof -
  have q: "gorm_query BaseResource_ops None = Inr (\<lambda>row. True)"
    by (simp add: gorm_query_def)
  have a: "1 \<le> sint (2 :: go_int)" "(sint (2 :: go_int) - 1) * sint (2 :: go_int) < 2 ^ 63"
    by simp_all
  have b: "1 \<le> sint (4 :: go_int)" "1 \<le> sint (2 :: go_int)"
    "(sint (4 :: go_int) - 1) * sint (2 :: go_int) < 2 ^ 63"
    by simp_all
  show ?thesis
    using DAO_List_page [OF a(1) a(1) a(2) q, of "\<lparr>rows = five_rows, next_id = 6\<rparr>"]
      DAO_List_page [OF b q, of "\<lparr>rows = five_rows, next_id = 6\<rparr>"] q
    by (simp add: five_rows_def)
qed

text \<open>
  C6, the claim as stated fails: with five rows, page \<open>4611686018427387905\<close> of size 4 lies
  far beyond the data, but its offset wraps around to 0 and the first four rows come back.
\<close>

theorem DAO_List_offset_wraps:
  "1 \<le> sint (4611686018427387905 :: go_int)
   \<and> map ID (fst (DAO_List BaseResource_ops None None 4611686018427387905 4 None
                     \<lparr>rows = five_rows, next_id = 6\<rparr>)) = [1, 2, 3, 4]
   \<and> snd (snd (DAO_List BaseResource_ops None None 4611686018427387905 4 None
                  \<lparr>rows = five_rows, next_id = 6\<rparr>)) = None"
  by (simp add: DAO_List_def gorm_query_def gorm_Count_def gorm_Find_def Let_def five_rows_def)

section \<open>Identifiers without a row\<close>












section \<open>Requests at which the handlers part from the specification\<close>

lemmas hook_eval =
  User_ops_def BaseResource_ops_def User_BeforeCreate_def User_BeforeUpdate_def
  BeforeCreate_def BeforeUpdate_def SetStatus_def Validate_def Let_def env0_def
  bcrypt_example_def zero_User_def zero_BaseResource_def zero_Status_def empty_DB_def
  has_id_def

lemmas store_eval =
  gorm_Create_def gorm_Updates_def gorm_Transaction_def DAO_Create_def DAO_Update_def
  DAO_Transaction_def User_updateFields_def BaseResource_updateFields_def write_nonzero_def

lemmas regex_eval =
  User_Validate_def emailRegex_MatchString_def is_letter_def is_digit_def is_local_char_def
  is_domain_char_def

lemmas list_eval =
  DAO_List_def gorm_query_def gorm_Count_def gorm_Find_def DefaultQuery_def Atoi_def
  ParseInt64_def ParseUint_def is_digit_def User_column_def BaseResource_column_def

text \<open>
  What an update does to the version: the hook adds one to the version of the value it is
  handed; a failed \<open>DAO_Update\<close> writes nothing; a successful one on a user stores the
  version of the request plus one, whatever version the row had.
\<close>

lemma BeforeUpdate_increments:
  "ResourceVersion (fst (BeforeUpdate b)) = ResourceVersion b + 1"
  by (simp add: BeforeUpdate_def Let_def)

lemma map_unhit:
  "filter hit xs = [] \<Longrightarrow> map (\<lambda>row. if hit row then f row else row) xs = xs"
  by (simp add: filter_empty_conv map_idI)

lemma DAO_Update_failure_writes_nothing:
  assumes "fst (snd (DAO_Update ops e fault i r db)) \<noteq> None"
  shows "snd (snd (DAO_Update ops e fault i r db)) = db"
proof (cases "hookBeforeUpdate ops e r")
  case (Pair r1 herr)
  show ?thesis
  proof (cases "herr = None \<and> fault = None")
    case False
    with Pair show ?thesis
      by (auto simp: DAO_Update_def gorm_Updates_def split: option.splits)
  next
    case True
    let ?hit = "\<lambda>row. has_id ops i row
                   \<and> (primaryKey ops r1 = 0 \<or> has_id ops (primaryKey ops r1) row)"
    from True Pair assms have "filter ?hit (rows db) = []"
      by (simp add: DAO_Update_def gorm_Updates_def Let_def split: if_splits)
    then have "map (\<lambda>row. if ?hit row then updateFields ops r1 row else row) (rows db) = rows db"
      by (rule map_unhit)
    with True Pair show ?thesis
      by (simp add: DAO_Update_def gorm_Updates_def Let_def)
  qed
qed

lemma User_BeforeUpdate_version:
  "snd (User_BeforeUpdate bc t r) = None \<Longrightarrow>
   ResourceVersion (fst (User_BeforeUpdate bc t r)) = ResourceVersion r + 1"
  by (simp add: User_BeforeUpdate_def Let_def SetStatus_def BeforeUpdate_increments
      split: if_splits sum.splits)

lemma User_BeforeUpdate_ID: "ID (fst (User_BeforeUpdate bc t r)) = ID r"
  by (simp add: User_BeforeUpdate_def Let_def SetStatus_def BeforeUpdate_def
      split: if_splits sum.splits)

lemma User_updateFields_version:
  "ResourceVersion (User_updateFields r row) =
     (if ResourceVersion r = 0 then ResourceVersion row else ResourceVersion r)"
  by (simp add: User_updateFields_def BaseResource_updateFields_def write_nonzero_def)

lemma DAO_Update_stores_request_version:
  assumes ok: "snd (User_BeforeUpdate (bcrypt e) (time_Now e) r) = None"
    and key: "ID r = 0" "ID row = i"
    and nz: "ResourceVersion r + 1 \<noteq> 0"
  shows "fst (snd (DAO_Update User_ops e None i r \<lparr>rows = [row], next_id = n\<rparr>)) = None
    \<and> map ResourceVersion
        (rows (snd (snd (DAO_Update User_ops e None i r \<lparr>rows = [row], next_id = n\<rparr>)))) =
      [ResourceVersion r + 1]"
proof -
  obtain r1 where h: "User_BeforeUpdate (bcrypt e) (time_Now e) r = (r1, None)"
    using ok by (cases "User_BeforeUpdate (bcrypt e) (time_Now e) r") simp
  have v: "ResourceVersion r1 = ResourceVersion r + 1"
    using User_BeforeUpdate_version [OF ok] h by simp
  have k: "ID r1 = 0"
    using User_BeforeUpdate_ID [of "bcrypt e" "time_Now e" r] h key(1) by simp
  show ?thesis
    using h v k key(2) nz
    by (simp add: DAO_Update_def gorm_Updates_def Let_def User_ops_def has_id_def
        User_updateFields_version)
qed

text \<open>
  C2, a failing input. A user is created through \<open>Router_Create\<close> and is stored with
  version 1. A PUT of the same user with a new e-mail address and no metadata is answered
  200 and changes the row, but the stored version is still 1; a PUT that carries version
  41 stores version 42.
\<close>

theorem Router_Update_versions_from_request:
  "fst (fst (Router_Create User_ops env0 None (\<lambda>obj. Inr alice_body) empty_DB)) = StatusCreated
   \<and> map ResourceVersion
        (rows (snd (Router_Create User_ops env0 None (\<lambda>obj. Inr alice_body) empty_DB))) = [1]
   \<and> fst (fst (Router_Update User_ops env0 None ''1''
                  (\<lambda>obj. Inr (alice_body\<lparr>Email := ''a2@example.com''\<rparr>))
                  (snd (Router_Create User_ops env0 None (\<lambda>obj. Inr alice_body) empty_DB))))
       = StatusOK
   \<and> map (\<lambda>row. (Email row, ResourceVersion row))
        (rows (snd (Router_Update User_ops env0 None ''1''
                      (\<lambda>obj. Inr (alice_body\<lparr>Email := ''a2@example.com''\<rparr>))
                      (snd (Router_Create User_ops env0 None (\<lambda>obj. Inr alice_body)
                              empty_DB)))))
       = [(''a2@example.com'', 1)]
   \<and> fst (fst (Router_Update User_ops env0 None ''1''
                  (\<lambda>obj. Inr (alice_body\<lparr>ResourceVersion := 41\<rparr>))
                  (snd (Router_Create User_ops env0 None (\<lambda>obj. Inr alice_body) empty_DB))))
       = StatusOK
   \<and> map ResourceVersion
        (rows (snd (Router_Update User_ops env0 None ''1''
                      (\<lambda>obj. Inr (alice_body\<lparr>ResourceVersion := 41\<rparr>))
                      (snd (Router_Create User_ops env0 None (\<lambda>obj. Inr alice_body)
                              empty_DB)))))
       = [42]"
  by (simp add: Router_Create_def Router_Update_def ParseUint_def hook_eval store_eval
      regex_eval alice_body_def)

text \<open>
  C4, a failing input. \<open>User_Validate\<close> rejects a user name of two characters, and
  \<open>Router_Create\<close> answers 400 for it without a write. The POST handler of
  \<open>RegisterResource\<close> stores the same body and answers 201; \<open>Router_Update\<close> writes it
  over an existing row and answers 200. A validation failure inside a hook (a base
  resource without kind) is answered 500, not 400, by \<open>RegisterResource\<close>'s POST handler
  and by \<open>Router_Update\<close>.
\<close>

theorem validation_not_run_on_every_path:
  "User_Validate short_name_body =
     Some (ErrorsNew ''username must be at least 3 characters long'')
   \<and> Router_Create User_ops env0 None (\<lambda>obj. Inr short_name_body) empty_DB =
       ((StatusBadRequest, JSON_error ''username must be at least 3 characters long''),
        empty_DB)
   \<and> fst (fst (RegisterResource_POST User_ops env0 None (\<lambda>obj. Inr short_name_body) empty_DB))
       = StatusCreated
   \<and> map Username
        (rows (snd (RegisterResource_POST User_ops env0 None (\<lambda>obj. Inr short_name_body)
                      empty_DB))) = [''ab'']
   \<and> fst (fst (Router_Update User_ops env0 None ''1'' (\<lambda>obj. Inr short_name_body) two_users))
       = StatusOK
   \<and> map Username
        (rows (snd (Router_Update User_ops env0 None ''1'' (\<lambda>obj. Inr short_name_body)
                      two_users))) = [''ab'', ''bob'']
   \<and> RegisterResource_POST BaseResource_ops env0 None (\<lambda>obj. Inr obj) empty_DB =
       ((StatusInternalServerError, JSON_error ''kind is required''), empty_DB)
   \<and> Router_Update BaseResource_ops env0 None ''1'' (\<lambda>obj. Inr obj)
        \<lparr>rows = [zero_BaseResource\<lparr>ID := 1, Kind := ''Widget'', APIVersion := ''v1''\<rparr>],
         next_id = 2\<rparr> =
       ((StatusInternalServerError, JSON_error ''kind is required''),
        \<lparr>rows = [zero_BaseResource\<lparr>ID := 1, Kind := ''Widget'', APIVersion := ''v1''\<rparr>],
         next_id = 2\<rparr>)"
  by (simp add: Router_Create_def Router_Update_def RegisterResource_POST_def ParseUint_def
      hook_eval store_eval regex_eval alice_body_def bob_body_def short_name_body_def
      two_users_def)

text \<open>
  C5, a failing input. With the users alice and bob stored, the list request with the
  query \<open>username=alice\<close> gets both users from \<open>Router_List\<close>; the list handler of
  \<open>RegisterResource\<close> returns alice alone.
\<close>

theorem Router_List_ignores_filter_parameters:
  "Router_List User_ops None None [(''username'', ''alice'')] two_users =
     ((StatusOK, JSON_items [alice_body\<lparr>ID := 1\<rparr>, bob_body\<lparr>ID := 2\<rparr>]), two_users)
   \<and> RegisterResource_GET_list User_ops None None [(''username'', ''alice'')] two_users =
       ((StatusOK, JSON_list \<lparr>Items = [alice_body\<lparr>ID := 1\<rparr>], Total = 1, Page = 1, Size = 10\<rparr>),
        two_users)"
  by (simp add: Router_List_def RegisterResource_GET_list_def list_eval hook_eval
      alice_body_def bob_body_def two_users_def)

lemma map_of_filter_key:
  "P k \<Longrightarrow> map_of (filter (\<lambda>(k', v). P k') q) k = map_of q k"
  by (induction q) auto

lemma Router_List_reads_page_and_size_only:
  "Router_List ops fault_count fault_find query db =
   Router_List ops fault_count fault_find
     (filter (\<lambda>(key, v). key = ''page'' \<or> key = ''size'') query) db"
  by (simp add: Router_List_def DefaultQuery_def
      map_of_filter_key [where P = "\<lambda>key. key = ''page'' \<or> key = ''size''"])

end
